theory Spec2Isabelle
  imports Complex_Main "HOL-Library.Sublist"
begin

section \<open>Python strings\<close>

text \<open>
  A Python \<open>str\<close> is modelled as an Isabelle \<open>string\<close>, one \<open>char\<close> per code point;
  Isabelle characters stop at code point 255, so the model covers the Latin-1 part of
  Unicode. On it \<open>str.lower\<close> keeps the length of a string, \<open>str.isspace\<close> holds of
  the code points 9-13, 28-32, 133 and 160, and the pattern \<open>\w\<close> of a \<open>str\<close> regex
  holds of the alphanumeric code points and the underscore.
  \<open>a in b\<close> on strings is \<open>sublist a b\<close>, \<open>b.startswith(a)\<close> is \<open>prefix a b\<close> and
  \<open>b.endswith(a)\<close> is \<open>suffix a b\<close>.
\<close>

definition isspace :: "char \<Rightarrow> bool" where
  "isspace c = (let n = (of_char c :: nat) in
     (9 \<le> n \<and> n \<le> 13) \<or> (28 \<le> n \<and> n \<le> 32) \<or> n = 133 \<or> n = 160)"

definition isdigit :: "char \<Rightarrow> bool" where
  "isdigit c = (let n = (of_char c :: nat) in 48 \<le> n \<and> n \<le> 57)"

definition isalpha :: "char \<Rightarrow> bool" where
  "isalpha c = (let n = (of_char c :: nat) in
     (65 \<le> n \<and> n \<le> 90) \<or> (97 \<le> n \<and> n \<le> 122) \<or> n = 170 \<or> n = 181 \<or> n = 186 \<or>
     (192 \<le> n \<and> n \<noteq> 215 \<and> n \<noteq> 247))"

definition isword :: "char \<Rightarrow> bool" where
  \<comment> \<open>the class \<open>\w\<close>: \<open>c.isalnum() or c == '_'\<close>\<close>
  "isword c = (let n = (of_char c :: nat) in
     isalpha c \<or> isdigit c \<or> n = 95 \<or> n = 178 \<or> n = 179 \<or> n = 185 \<or> (188 \<le> n \<and> n \<le> 190))"

definition lower_char :: "char \<Rightarrow> char" where
  "lower_char c = (let n = (of_char c :: nat) in
     if (65 \<le> n \<and> n \<le> 90) \<or> (192 \<le> n \<and> n \<le> 222 \<and> n \<noteq> 215)
     then char_of (n + 32) else c)"

definition lower :: "string \<Rightarrow> string" where
  "lower s = map lower_char s"

definition strip :: "string \<Rightarrow> string" where
  "strip s = rev (dropWhile isspace (rev (dropWhile isspace s)))"

text \<open>\<open>s.find(t)\<close>: the index of the first occurrence of \<open>t\<close> in \<open>s\<close>, or \<open>-1\<close>.\<close>

fun py_find :: "string \<Rightarrow> string \<Rightarrow> int" where
  "py_find [] t = (if t = [] then 0 else -1)"
| "py_find (c # cs) t =
     (if prefix t (c # cs) then 0
      else (let idx = py_find cs t in if idx < 0 then -1 else idx + 1))"

text \<open>
  A slice \<open>xs[lo:hi]\<close>: a negative bound counts from the end, and both bounds are
  clamped to the list, so a slice never raises.
\<close>

definition py_index :: "nat \<Rightarrow> int \<Rightarrow> nat" where
  "py_index n i = (if i < 0 then nat (max 0 (int n + i)) else min n (nat i))"

definition py_slice :: "'a list \<Rightarrow> int \<Rightarrow> int \<Rightarrow> 'a list" where
  "py_slice xs lo hi = drop (py_index (length xs) lo) (take (py_index (length xs) hi) xs)"

text \<open>
  \<open>re.findall(r"\w+", s)\<close>: the maximal runs of word characters of \<open>s\<close>, from left
  to right. \<open>cur\<close> holds the run being read, reversed.
\<close>

fun findall_words_from :: "string \<Rightarrow> string \<Rightarrow> string list" where
  "findall_words_from cur [] = (if cur = [] then [] else [rev cur])"
| "findall_words_from cur (c # cs) =
     (if isword c then findall_words_from (c # cur) cs
      else if cur = [] then findall_words_from [] cs
      else rev cur # findall_words_from [] cs)"

definition findall_words :: "string \<Rightarrow> string list" where
  "findall_words s = findall_words_from [] s"

section \<open>Windowed excerpts\<close>

definition PER_CLAUSE_WINDOW :: int where
  "PER_CLAUSE_WINDOW = 400"

definition MAX_CONTEXT_CHARS :: int where
  "MAX_CONTEXT_CHARS = 1500"

text \<open>
  The loop of \<open>build_windowed_context\<close> over the query terms: the first term found in
  the lower-cased chunk gives the hit.
\<close>

fun first_hit_of :: "string \<Rightarrow> string list \<Rightarrow> int option" where
  "first_hit_of cl [] = None"
| "first_hit_of cl (tm # tms) =
     (let idx = py_find cl tm in if idx \<ge> 0 then Some idx else first_hit_of cl tms)"

definition build_windowed_context :: "string \<Rightarrow> string \<Rightarrow> int \<Rightarrow> string" where
  "build_windowed_context query chunk window =
     (let q_terms = filter (\<lambda>w. length w \<ge> 4) (findall_words (lower query));
          cl = lower chunk
      in case first_hit_of cl q_terms of
           None \<Rightarrow> py_slice chunk 0 (min (int (length chunk)) window)
         | Some first_hit \<Rightarrow>
             (let start = max 0 (first_hit - window div 2)
              in py_slice chunk start (min (int (length chunk)) (start + window))))"

section \<open>Decision normalisation\<close>

definition normalize_decision :: "string \<Rightarrow> string" where
  "normalize_decision decision_str =
     (if decision_str = [] then ''PENDING''
      else (let decision_lower = strip (lower decision_str) in
        if list_ex (\<lambda>word. sublist word decision_lower)
             [''approved'', ''approve'', ''eligible'', ''accept''] then ''APPROVED''
        else if list_ex (\<lambda>word. sublist word decision_lower)
             [''rejected'', ''reject'', ''denied'', ''deny'', ''not eligible''] then ''REJECTED''
        else if list_ex (\<lambda>word. sublist word decision_lower)
             [''pending'', ''further'', ''investigation'', ''information'', ''undecided'']
        then ''PENDING''
        else ''PENDING''))"

section \<open>Cleaning a model response\<close>

text \<open>
  \<open>re.search(r'\{', text)\<close>: the start of the match is the index of the first opening
  brace, when there is one.
\<close>

definition re_search_lbrace :: "string \<Rightarrow> nat option" where
  "re_search_lbrace s =
     (if CHR ''{'' \<in> set s then Some (length (takeWhile (\<lambda>c. c \<noteq> CHR ''{'') s)) else None)"

text \<open>
  \<open>re.search(r'\{.*\}', s, re.DOTALL)\<close>, group 0: with \<open>DOTALL\<close> the greedy \<open>.*\<close> runs
  over every character, so the leftmost match starts at the first opening brace that
  has a closing brace after it (the first opening brace, or none) and ends at the last
  closing brace of \<open>s\<close>.
\<close>

definition re_search_object :: "string \<Rightarrow> string option" where
  "re_search_object s =
     (let t = dropWhile (\<lambda>c. c \<noteq> CHR ''{'') s in
      if t \<noteq> [] \<and> CHR ''}'' \<in> set (tl t)
      then Some (CHR ''{'' # rev (dropWhile (\<lambda>c. c \<noteq> CHR ''}'') (rev (tl t))))
      else None)"

text \<open>
  The first half of \<open>clean_json_response\<close>: the text stripped, without a leading
  \<open>```json\<close> and a trailing \<open>```\<close>, and stripped again.
\<close>

definition strip_fences :: "string \<Rightarrow> string" where
  "strip_fences text0 =
     (let text1 = strip text0;
          text2 = (if prefix ''```json'' text1 then drop 7 text1 else text1);
          text3 = (if suffix ''```'' text2 then py_slice text2 0 (- 3) else text2)
      in strip text3)"

text \<open>
  The second half: the text from the first opening brace on is searched for the greedy
  object span; without a brace, or without a span, the text is returned as it is.
\<close>

definition extract_object :: "string \<Rightarrow> string" where
  "extract_object text4 =
     (case re_search_lbrace text4 of
        None \<Rightarrow> text4
      | Some start \<Rightarrow>
          (let json_str = drop start text4 in
           case re_search_object json_str of
             Some json_match \<Rightarrow> json_match
           | None \<Rightarrow> text4))"

definition clean_json_response :: "string \<Rightarrow> string" where
  "clean_json_response text0 =
     (if text0 = [] \<or> strip text0 = [] then text0
      else extract_object (strip_fences text0))"

section \<open>Python values and exceptions\<close>

text \<open>
  An exception is its class name and its text (\<open>str(e)\<close>, as CPython 3.11 words it). A function that can raise
  returns \<open>py_error + 'a\<close>, with \<open>Inl\<close> for the exception; \<open>bind_exn\<close> runs the next
  statement when the one before did not raise.
\<close>

datatype py_error = PyError (err_class: string) (err_text: string)

text \<open>A name in single quotes, as the texts of CPython's exceptions have it.\<close>

definition quoted :: "string \<Rightarrow> string" where
  "quoted s = CHR 0x27 # s @ [CHR 0x27]"

definition bind_exn :: "py_error + 'a \<Rightarrow> ('a \<Rightarrow> py_error + 'b) \<Rightarrow> py_error + 'b" where
  "bind_exn m f = (case m of Inl e \<Rightarrow> Inl e | Inr x \<Rightarrow> f x)"

text \<open>
  The values \<open>json.loads\<close> produces, which are the values the pipeline passes around in
  its dictionaries. A \<open>float\<close> is a rational or one of the three special values
  \<open>json.loads\<close> accepts. A dictionary is an association list with string keys, looked
  up by \<open>map_of\<close>.
\<close>

datatype pyfloat = Finite rat | PosInf | NegInf | NaN

datatype pyval =
    PNone
  | PBool bool
  | PInt int
  | PFloat pyfloat
  | PStr string
  | PList "pyval list"
  | PDict "(string \<times> pyval) list"

text \<open>Truth of a value, as \<open>if v\<close>, \<open>not v\<close> and \<open>filter(None, ...)\<close> read it.\<close>

fun py_truthy :: "pyval \<Rightarrow> bool" where
  "py_truthy PNone = False"
| "py_truthy (PBool b) = b"
| "py_truthy (PInt n) = (n \<noteq> 0)"
| "py_truthy (PFloat f) = (f \<noteq> Finite 0)"
| "py_truthy (PStr s) = (s \<noteq> [])"
| "py_truthy (PList xs) = (xs \<noteq> [])"
| "py_truthy (PDict kvs) = (kvs \<noteq> [])"

fun type_name :: "pyval \<Rightarrow> string" where
  "type_name PNone = ''NoneType''"
| "type_name (PBool b) = ''bool''"
| "type_name (PInt n) = ''int''"
| "type_name (PFloat f) = ''float''"
| "type_name (PStr s) = ''str''"
| "type_name (PList xs) = ''list''"
| "type_name (PDict kvs) = ''dict''"

text \<open>\<open>obj.get(key, default)\<close>: only a dictionary has the method.\<close>

fun py_get :: "pyval \<Rightarrow> string \<Rightarrow> pyval \<Rightarrow> py_error + pyval" where
  "py_get (PDict kvs) key dflt = Inr (case map_of kvs key of Some v \<Rightarrow> v | None \<Rightarrow> dflt)"
| "py_get v key dflt =
     Inl (PyError ''AttributeError''
       (quoted (type_name v) @ '' object has no attribute '' @ quoted ''get''))"

text \<open>
  \<open>key in obj\<close> for a string key: a key of a dictionary, an element of a list, a
  substring of a string; any other value is not a container.
\<close>

fun py_contains :: "string \<Rightarrow> pyval \<Rightarrow> py_error + bool" where
  "py_contains key (PDict kvs) = Inr (map_of kvs key \<noteq> None)"
| "py_contains key (PList xs) = Inr (PStr key \<in> set xs)"
| "py_contains key (PStr s) = Inr (sublist key s)"
| "py_contains key v =
     Inl (PyError ''TypeError'' (''argument of type '' @ quoted (type_name v) @ '' is not iterable''))"

text \<open>\<open>obj[key]\<close> for a string key: a list or a string wants an integer index.\<close>

fun py_getitem :: "pyval \<Rightarrow> string \<Rightarrow> py_error + pyval" where
  "py_getitem (PDict kvs) key =
     (case map_of kvs key of Some v \<Rightarrow> Inr v | None \<Rightarrow> Inl (PyError ''KeyError'' (quoted key)))"
| "py_getitem (PList xs) key = Inl (PyError ''TypeError'' ''list indices must be integers or slices, not str'')"
| "py_getitem (PStr s) key =
     Inl (PyError ''TypeError'' (''string indices must be integers, not '' @ quoted ''str''))"
| "py_getitem v key =
     Inl (PyError ''TypeError'' (quoted (type_name v) @ '' object is not subscriptable''))"

text \<open>\<open>d[key] = v\<close> on a dictionary: the entry is replaced in place, or added at the end.\<close>

fun dict_set :: "(string \<times> pyval) list \<Rightarrow> string \<Rightarrow> pyval \<Rightarrow> (string \<times> pyval) list" where
  "dict_set [] key v = [(key, v)]"
| "dict_set ((k, w) # kvs) key v = (if k = key then (k, v) # kvs else (k, w) # dict_set kvs key v)"

text \<open>\<open>int(s)\<close> for a string of ASCII digits, and \<open>str(n)\<close> for an integer.\<close>

definition int_of_digits :: "string \<Rightarrow> int" where
  "int_of_digits s = foldl (\<lambda>a c. 10 * a + (int (of_char c) - 48)) 0 s"

fun digits_of_nat :: "nat \<Rightarrow> nat \<Rightarrow> string" where
  "digits_of_nat 0 n = []"
| "digits_of_nat (Suc fuel) n =
     (if n < 10 then [char_of (48 + n)]
      else digits_of_nat fuel (n div 10) @ [char_of (48 + n mod 10)])"

definition str_of_int :: "int \<Rightarrow> string" where
  "str_of_int n = (if n < 0 then CHR ''-'' # digits_of_nat (Suc (nat (- n))) (nat (- n))
                   else digits_of_nat (Suc (nat n)) (nat n))"

text \<open>\<open>sep.join(items)\<close>: every item must be a string.\<close>

fun str_items :: "nat \<Rightarrow> pyval list \<Rightarrow> py_error + string list" where
  "str_items i [] = Inr []"
| "str_items i (PStr s # vs) = bind_exn (str_items (Suc i) vs) (\<lambda>ss. Inr (s # ss))"
| "str_items i (v # vs) =
     Inl (PyError ''TypeError'' (''sequence item '' @ str_of_int (int i)
       @ '': expected str instance, '' @ type_name v @ '' found''))"

fun join_strings :: "string \<Rightarrow> string list \<Rightarrow> string" where
  "join_strings sep [] = []"
| "join_strings sep [s] = s"
| "join_strings sep (s # ss) = s @ sep @ join_strings sep ss"

definition str_join :: "string \<Rightarrow> pyval list \<Rightarrow> py_error + string" where
  "str_join sep items = bind_exn (str_items 0 items) (\<lambda>ss. Inr (join_strings sep ss))"

section \<open>Regular expressions\<close>

text \<open>
  The patterns of the source are written as values of \<open>regex\<close> and matched the way
  Python's \<open>re\<close> matches: by backtracking, alternatives from left to right, a greedy
  repetition trying more first and a lazy one less first. \<open>rmatch r st\<close> lists the
  states in which a match of \<open>r\<close> begun in \<open>st\<close> can end, in the order backtracking
  tries them. A state is the text after the position, the position, and the groups
  captured so far. The repeated patterns of the source all consume a character, so a
  repetition is cut off after as many rounds as characters remain.
\<close>

datatype regex =
    Chr char
  | Cls "char \<Rightarrow> bool"
  | Eps
  | Seq regex regex
  | Alt regex regex
  | Star regex
  | Lazy regex
  | Opt regex
  | Group nat regex

datatype mstate =
  MState (st_rest: string) (st_pos: nat) (st_caps: "(nat \<times> string) list")

fun star_greedy :: "(mstate \<Rightarrow> mstate list) \<Rightarrow> nat \<Rightarrow> mstate \<Rightarrow> mstate list" where
  "star_greedy f 0 st = [st]"
| "star_greedy f (Suc n) st =
     concat (map (\<lambda>st'. if st_pos st < st_pos st' then star_greedy f n st' else []) (f st)) @ [st]"

fun star_lazy :: "(mstate \<Rightarrow> mstate list) \<Rightarrow> nat \<Rightarrow> mstate \<Rightarrow> mstate list" where
  "star_lazy f 0 st = [st]"
| "star_lazy f (Suc n) st =
     st # concat (map (\<lambda>st'. if st_pos st < st_pos st' then star_lazy f n st' else []) (f st))"

primrec rmatch :: "regex \<Rightarrow> mstate \<Rightarrow> mstate list" where
  "rmatch (Chr c) st =
     (case st_rest st of
        [] \<Rightarrow> []
      | x # xs \<Rightarrow> if x = c then [MState xs (Suc (st_pos st)) (st_caps st)] else [])"
| "rmatch (Cls P) st =
     (case st_rest st of
        [] \<Rightarrow> []
      | x # xs \<Rightarrow> if P x then [MState xs (Suc (st_pos st)) (st_caps st)] else [])"
| "rmatch Eps st = [st]"
| "rmatch (Seq a b) st = concat (map (rmatch b) (rmatch a st))"
| "rmatch (Alt a b) st = rmatch a st @ rmatch b st"
| "rmatch (Star a) st = star_greedy (rmatch a) (Suc (length (st_rest st))) st"
| "rmatch (Lazy a) st = star_lazy (rmatch a) (Suc (length (st_rest st))) st"
| "rmatch (Opt a) st = rmatch a st @ [st]"
| "rmatch (Group n a) st =
     map (\<lambda>st'. MState (st_rest st') (st_pos st')
                  ((n, take (st_pos st' - st_pos st) (st_rest st)) # st_caps st'))
         (rmatch a st)"

text \<open>Shorthands: a literal text, \<open>r+\<close>, a sequence and a choice of several patterns.\<close>

fun Str :: "string \<Rightarrow> regex" where
  "Str [] = Eps"
| "Str (c # cs) = Seq (Chr c) (Str cs)"

definition Plus :: "regex \<Rightarrow> regex" where
  "Plus r = Seq r (Star r)"

fun Seqs :: "regex list \<Rightarrow> regex" where
  "Seqs [] = Eps"
| "Seqs (r # rs) = Seq r (Seqs rs)"

fun Alts :: "regex list \<Rightarrow> regex" where
  "Alts [] = Cls (\<lambda>c. False)"
| "Alts [r] = r"
| "Alts (r # rs) = Alt r (Alts rs)"

text \<open>
  A match object: \<open>m.start()\<close>, \<open>m.end()\<close>, \<open>m.group(0)\<close> and the numbered groups.
  \<open>re.search\<close> tries the positions of the text from left to right and takes the first
  way the pattern matches at the first position where it does.
\<close>

record re_match =
  m_start :: nat
  m_end :: nat
  m_text :: string
  m_groups :: "(nat \<times> string) list"

definition mk_match :: "mstate \<Rightarrow> mstate \<Rightarrow> re_match" where
  "mk_match st st' = \<lparr>m_start = st_pos st, m_end = st_pos st',
      m_text = take (st_pos st' - st_pos st) (st_rest st), m_groups = st_caps st'\<rparr>"

fun re_search_at :: "regex \<Rightarrow> nat \<Rightarrow> string \<Rightarrow> re_match option" where
  "re_search_at r i [] =
     (case rmatch r (MState [] i []) of
        [] \<Rightarrow> None
      | st' # sts \<Rightarrow> Some (mk_match (MState [] i []) st'))"
| "re_search_at r i (x # xs) =
     (case rmatch r (MState (x # xs) i []) of
        [] \<Rightarrow> re_search_at r (Suc i) xs
      | st' # sts \<Rightarrow> Some (mk_match (MState (x # xs) i []) st'))"

definition re_search :: "regex \<Rightarrow> string \<Rightarrow> re_match option" where
  "re_search r s = re_search_at r 0 s"

definition m_group :: "re_match \<Rightarrow> nat \<Rightarrow> string" where
  "m_group m n = (case map_of (m_groups m) n of Some t \<Rightarrow> t | None \<Rightarrow> [])"

text \<open>The classes \<open>\d\<close>, \<open>\s\<close>, \<open>[\s-]\<close> and \<open>.\<close> (any character but a newline).\<close>

definition cls_d :: regex where "cls_d = Cls isdigit"
definition cls_s :: regex where "cls_s = Cls isspace"
definition cls_s_dash :: regex where "cls_s_dash = Cls (\<lambda>c. isspace c \<or> c = CHR ''-'')"
definition cls_dot :: regex where "cls_dot = Cls (\<lambda>c. c \<noteq> CHR 0x0A)"

section \<open>The model client\<close>

text \<open>
  \<open>GPT5Client\<close> holds the primary model and the ordered fallback models. The remote
  API is a parameter: \<open>api k model timeout\<close> is what the \<open>k\<close>-th call of one
  \<open>generate_content_async\<close> gets, either an exception (the call raised or timed out,
  or the response had no choice) or the content of the first choice, which may be
  \<open>None\<close>. The function returns its result together with the calls it made, in order.
\<close>

record gpt5_client =
  primary_model :: string
  fallback_models :: "string list"

definition GPT5Client :: gpt5_client where
  "GPT5Client = \<lparr>primary_model = ''openai/gpt-5-mini-2025-08-07'',
     fallback_models = [''openai/gpt-5-2025-08-07'', ''openai/gpt-5-chat-latest'',
                        ''openai/gpt-4o-mini'', ''openai/gpt-3.5-turbo'']\<rparr>"

type_synonym api_reply = "py_error + string option"
type_synonym api_call = "string \<times> nat"

definition all_models_failed :: py_error where
  "all_models_failed = PyError ''Exception'' ''All models failed to generate content''"

text \<open>\<open>content and content.strip()\<close>\<close>

definition has_content :: "api_reply \<Rightarrow> bool" where
  "has_content reply =
     (case reply of Inr (Some content) \<Rightarrow> content \<noteq> [] \<and> strip content \<noteq> [] | _ \<Rightarrow> False)"

fun try_fallbacks ::
  "(nat \<Rightarrow> string \<Rightarrow> nat \<Rightarrow> api_reply) \<Rightarrow> nat \<Rightarrow> string list \<Rightarrow> api_call list
     \<Rightarrow> (py_error + string) \<times> api_call list" where
  "try_fallbacks api k [] calls =
     (Inl all_models_failed, calls)"
| "try_fallbacks api k (fallback_model # models) calls =
     (case api k fallback_model 60 of
        Inr (Some content) \<Rightarrow>
          if content \<noteq> [] \<and> strip content \<noteq> []
          then (Inr content, calls @ [(fallback_model, 60)])
          else try_fallbacks api (Suc k) models (calls @ [(fallback_model, 60)])
      | _ \<Rightarrow> try_fallbacks api (Suc k) models (calls @ [(fallback_model, 60)]))"

definition generate_content_async ::
  "gpt5_client \<Rightarrow> (nat \<Rightarrow> string \<Rightarrow> nat \<Rightarrow> api_reply) \<Rightarrow> (py_error + string) \<times> api_call list" where
  "generate_content_async self api =
     (case api 0 (primary_model self) 30 of
        Inr (Some content) \<Rightarrow>
          if content \<noteq> [] \<and> strip content \<noteq> []
          then (Inr content, [(primary_model self, 30)])
          else try_fallbacks api 1 (fallback_models self) [(primary_model self, 30)]
      | _ \<Rightarrow> try_fallbacks api 1 (fallback_models self) [(primary_model self, 30)])"

text \<open>
  The reply to the \<open>k\<close>-th model in the order the client tries them: the primary
  model first, then the fallback models as configured.
\<close>

definition reply_of :: "gpt5_client \<Rightarrow> (nat \<Rightarrow> string \<Rightarrow> nat \<Rightarrow> api_reply) \<Rightarrow> nat \<Rightarrow> api_reply" where
  "reply_of self api k =
     (case k of 0 \<Rightarrow> api 0 (primary_model self) 30
              | Suc j \<Rightarrow> api (Suc j) (fallback_models self ! j) 60)"

section \<open>Entity extraction without the model\<close>

text \<open>
  The patterns of \<open>_extract_entities_fallback\<close>:
  \<^verbatim>\<open>(\d+)[\s-]*(?:year|yr)s?[\s-]*old\<close>,
  \<^verbatim>\<open>(\d+)[\s-]*(?:month|year|yr)s?[\s-]*old[\s-]*policy\<close>,
  \<^verbatim>\<open>(\d+)[\s-]*(?:month|year|yr)s?[\s-]*policy\<close>,
  \<^verbatim>\<open>(\d+)[\s-]*(?:month|year|yr)s?\<close> and
  \<^verbatim>\<open>year[\s-]*old|years[\s-]*old\<close>.
\<close>

definition age_pattern :: regex where
  "age_pattern = Seqs [Group 1 (Plus cls_d), Star cls_s_dash, Alt (Str ''year'') (Str ''yr''),
     Opt (Chr CHR ''s''), Star cls_s_dash, Str ''old'']"

definition old_policy_pattern :: regex where
  "old_policy_pattern = Seqs [Group 1 (Plus cls_d), Star cls_s_dash,
     Alts [Str ''month'', Str ''year'', Str ''yr''], Opt (Chr CHR ''s''), Star cls_s_dash,
     Str ''old'', Star cls_s_dash, Str ''policy'']"

definition policy_pattern :: regex where
  "policy_pattern = Seqs [Group 1 (Plus cls_d), Star cls_s_dash,
     Alts [Str ''month'', Str ''year'', Str ''yr''], Opt (Chr CHR ''s''), Star cls_s_dash,
     Str ''policy'']"

definition duration_pattern :: regex where
  "duration_pattern = Seqs [Group 1 (Plus cls_d), Star cls_s_dash,
     Alts [Str ''month'', Str ''year'', Str ''yr''], Opt (Chr CHR ''s'')]"

definition year_old_pattern :: regex where
  "year_old_pattern = Alt (Seqs [Str ''year'', Star cls_s_dash, Str ''old''])
                          (Seqs [Str ''years'', Star cls_s_dash, Str ''old''])"

text \<open>
  \<open>s.title()\<close>: a letter after a letter is lower-cased, any other letter upper-cased.
  It is applied to the entries of \<open>locations\<close> only, which are lower-case ASCII words;
  \<open>upper_char\<close> leaves alone the three Latin-1 letters whose capital is outside Latin-1.
\<close>

definition upper_char :: "char \<Rightarrow> char" where
  "upper_char c = (let n = (of_char c :: nat) in
     if (97 \<le> n \<and> n \<le> 122) \<or> (224 \<le> n \<and> n \<le> 254 \<and> n \<noteq> 247)
     then char_of (n - 32) else c)"

fun title_from :: "bool \<Rightarrow> string \<Rightarrow> string" where
  "title_from after_letter [] = []"
| "title_from after_letter (c # cs) =
     (if after_letter then lower_char c else upper_char c) # title_from (isalpha c) cs"

definition title :: "string \<Rightarrow> string" where
  "title s = title_from False s"

definition extract_gender :: "string \<Rightarrow> pyval" where
  "extract_gender query_lower =
     (if sublist ''male'' query_lower \<or> sublist ''m'' query_lower then PStr ''male''
      else if sublist ''female'' query_lower \<or> sublist ''woman'' query_lower then PStr ''female''
      else PNone)"

definition extract_policy_duration :: "string \<Rightarrow> int" where
  "extract_policy_duration query_lower =
     (case re_search old_policy_pattern query_lower of
        Some policy_match \<Rightarrow> int_of_digits (m_group policy_match 1)
      | None \<Rightarrow>
          (case re_search policy_pattern query_lower of
             Some policy_match \<Rightarrow> int_of_digits (m_group policy_match 1)
           | None \<Rightarrow>
               (case re_search duration_pattern query_lower of
                  Some duration_match \<Rightarrow>
                    (let match_pos = m_start duration_match in
                     if re_search year_old_pattern (take (match_pos + 20) query_lower) = None
                     then int_of_digits (m_group duration_match 1) else 1)
                | None \<Rightarrow> 1)))"

definition extract_entities_fallback :: "string \<Rightarrow> pyval" where
  "extract_entities_fallback query =
     (let query_lower = lower query;
          age = (case re_search age_pattern query_lower of
                   Some age_match \<Rightarrow> PInt (int_of_digits (m_group age_match 1))
                 | None \<Rightarrow> PNone);
          gender = extract_gender query_lower;
          location =
            (case find (\<lambda>loc. sublist loc query_lower)
                    [''pune'', ''mumbai'', ''delhi'', ''chennai'', ''bangalore'', ''hyderabad'',
                     ''kolkata''] of
               Some loc \<Rightarrow> PStr (title loc)
             | None \<Rightarrow> PNone);
          procedure =
            (case find (\<lambda>proc. sublist proc query_lower)
                    [''surgery'', ''treatment'', ''operation'', ''dental'', ''cataract'', ''heart'',
                     ''knee''] of
               Some proc \<Rightarrow> PStr proc
             | None \<Rightarrow> PNone);
          policy_duration = extract_policy_duration query_lower
      in PDict [(''age'', age), (''gender'', gender), (''location'', location),
                (''procedure'', procedure), (''policy_duration_months'', PInt policy_duration),
                (''intent'', PStr ''claim_eligibility'')])"

section \<open>Evidence retrieval\<close>

text \<open>
  The search string of \<open>SemanticRetrievalAgent.process\<close>: the truthy values among the
  procedure, the intent, the location and the fixed text \<open>waiting period\<close>, joined by
  spaces and stripped; the original query when that is empty.
\<close>

definition search_query_of :: "pyval \<Rightarrow> string \<Rightarrow> py_error + string" where
  "search_query_of structured_query original_query =
     bind_exn (py_get structured_query ''procedure'' PNone) (\<lambda>procedure.
     bind_exn (py_get structured_query ''intent'' PNone) (\<lambda>intent.
     bind_exn (py_get structured_query ''location'' PNone) (\<lambda>location.
     bind_exn (str_join '' '' (filter py_truthy
                 [procedure, intent, location, PStr ''waiting period''])) (\<lambda>search_query.
     Inr (if strip search_query \<noteq> [] then strip search_query else original_query)))))"

text \<open>A field of the structured query that is a string or null.\<close>

definition str_or_none :: "string option \<Rightarrow> pyval" where
  "str_or_none v = (case v of None \<Rightarrow> PNone | Some s \<Rightarrow> PStr s)"

text \<open>
  The search string as the specification words it: the values that are not null among
  the procedure, the location, the intent and the text \<open>insurance policy coverage\<close>,
  joined by spaces; the original query when the join is empty.
\<close>

definition spec_search_string :: "string option \<Rightarrow> string option \<Rightarrow> string option \<Rightarrow> string \<Rightarrow> string" where
  "spec_search_string procedure location intent original_query =
     (let joined = join_strings '' ''
            (List.map_filter id [procedure, location, intent, Some ''insurance policy coverage''])
      in if joined = [] then original_query else joined)"

section \<open>The single-query pipeline\<close>

text \<open>
  What the pipeline gets from outside is a parameter. The model client is asked at four
  places, at most once each for one query: \<open>llm_entities\<close>, \<open>llm_reasoning\<close>,
  \<open>llm_rules\<close> and \<open>llm_ai_decision\<close> are what \<open>generate_content_async\<close> does
  there, raising or returning a text; a reply may depend on its prompt in any way, so the
  prompts themselves are not modelled. \<open>similarity_search\<close> is the vector store,
  \<open>json_loads\<close> is \<open>json.loads\<close>, \<open>int_of_str\<close> is \<open>int\<close> on a string
  (\<open>None\<close> for \<open>ValueError\<close>) and \<open>repr_of\<close> is \<open>str\<close> on a float, a list or a
  dictionary.
\<close>

record document =
  page_content :: string
  metadata :: "(string \<times> pyval) list"

record env =
  llm_entities :: "py_error + string"
  llm_reasoning :: "py_error + string"
  llm_rules :: "py_error + string"
  llm_ai_decision :: "py_error + string"
  similarity_search :: "string \<Rightarrow> nat \<Rightarrow> py_error + document list"
  json_loads :: "string \<Rightarrow> py_error + pyval"
  int_of_str :: "string \<Rightarrow> int option"
  repr_of :: "pyval \<Rightarrow> string"

text \<open>
  \<open>QueryContext\<close> and \<open>DecisionResponse\<close>. The fields \<open>decision\<close> and
  \<open>confidence_score\<close> of the context are named \<open>ctx_decision\<close> and
  \<open>ctx_confidence_score\<close> here; \<open>reasoning_chain\<close>, which is written and never
  read, and the wall-clock field \<open>processing_time\<close> are left out.
\<close>

record explanation_data =
  e_clause_mappings :: "(string \<times> pyval) list"
  e_audit_trail :: "string list"

record query_context =
  original_query :: string
  structured_query :: pyval
  retrieved_docs :: "document list option"
  ctx_decision :: pyval
  ctx_confidence_score :: pyval
  explanation :: "explanation_data option"

record decision_response =
  decision :: pyval
  amount :: pyval
  justification :: pyval
  clause_mappings :: "(string \<times> pyval) list"
  confidence_score :: pyval
  audit_trail :: "string list"

text \<open>\<open>str(v)\<close>, as an f-string formats a value.\<close>

definition format_val :: "env \<Rightarrow> pyval \<Rightarrow> string" where
  "format_val e v =
     (case v of
        PStr s \<Rightarrow> s
      | PInt n \<Rightarrow> str_of_int n
      | PBool b \<Rightarrow> (if b then ''True'' else ''False'')
      | PNone \<Rightarrow> ''None''
      | _ \<Rightarrow> repr_of e v)"

text \<open>\<open>int(v)\<close>\<close>

definition py_int :: "env \<Rightarrow> pyval \<Rightarrow> py_error + int" where
  "py_int e v =
     (case v of
        PInt n \<Rightarrow> Inr n
      | PBool b \<Rightarrow> Inr (if b then 1 else 0)
      | PFloat (Finite q) \<Rightarrow> Inr (if 0 \<le> q then \<lfloor>q\<rfloor> else \<lceil>q\<rceil>)
      | PFloat NaN \<Rightarrow> Inl (PyError ''ValueError'' ''cannot convert float NaN to integer'')
      | PFloat f \<Rightarrow> Inl (PyError ''OverflowError'' ''cannot convert float infinity to integer'')
      | PStr s \<Rightarrow>
          (case int_of_str e s of
             Some n \<Rightarrow> Inr n
           | None \<Rightarrow> Inl (PyError ''ValueError''
                       (''invalid literal for int() with base 10: '' @ quoted s)))
      | _ \<Rightarrow> Inl (PyError ''TypeError''
                (''int() argument must be a string, a bytes-like object or a real number, not ''
                 @ quoted (type_name v))))"

text \<open>\<open>v < n\<close> for an integer \<open>n\<close>\<close>

definition py_less_int :: "pyval \<Rightarrow> int \<Rightarrow> py_error + bool" where
  "py_less_int v n =
     (case v of
        PInt m \<Rightarrow> Inr (m < n)
      | PBool b \<Rightarrow> Inr ((if b then 1 else 0) < n)
      | PFloat (Finite q) \<Rightarrow> Inr (q < of_int n)
      | PFloat NegInf \<Rightarrow> Inr True
      | PFloat f \<Rightarrow> Inr False
      | _ \<Rightarrow> Inl (PyError ''TypeError''
                (quoted ''<'' @ '' not supported between instances of '' @ quoted (type_name v)
                 @ '' and '' @ quoted ''int'')))"

text \<open>\<open>obj[key] = v\<close> for a string key\<close>

definition py_setitem :: "pyval \<Rightarrow> string \<Rightarrow> pyval \<Rightarrow> py_error + pyval" where
  "py_setitem obj key v =
     (case obj of
        PDict kvs \<Rightarrow> Inr (PDict (dict_set kvs key v))
      | PList xs \<Rightarrow> Inl (PyError ''TypeError'' ''list indices must be integers or slices, not str'')
      | _ \<Rightarrow> Inl (PyError ''TypeError''
                (quoted (type_name obj) @ '' object does not support item assignment'')))"

subsection \<open>Query understanding\<close>

definition query_agent_process :: "env \<Rightarrow> query_context \<Rightarrow> query_context" where
  "query_agent_process e ctx =
     (case bind_exn (llm_entities e) (\<lambda>response_text.
             json_loads e (clean_json_response response_text)) of
        Inr structured \<Rightarrow> ctx\<lparr>structured_query := structured\<rparr>
      | Inl err \<Rightarrow> ctx\<lparr>structured_query := extract_entities_fallback (original_query ctx)\<rparr>)"

subsection \<open>Retrieval and reranking\<close>

definition CLAUSE_KEYWORDS :: "(string \<times> string list) list" where
  "CLAUSE_KEYWORDS =
     [(''waiting period'', [''waiting period'', ''cooling period'', ''initial waiting'']),
      (''pre-existing'', [''pre-existing'', ''PED'']),
      (''maternity'', [''maternity'', ''pregnancy'', ''childbirth'']),
      (''cataract'', [''cataract'']),
      (''organ donor'', [''organ donor'', ''donor expenses'']),
      (''no claim'', [''no claim discount'', ''NCD'']),
      (''preventive'', [''preventive'', ''health check'']),
      (''hospital'', [''hospital'', ''inpatient'']),
      (''ayush'', [''ayush'', ''ayurveda'', ''homeopathy'', ''siddha'', ''unani'']),
      (''room rent'', [''room rent'', ''icu charges'', ''sub-limit''])]"

definition score_clause_bias :: "string \<Rightarrow> string \<Rightarrow> int" where
  "score_clause_bias query txt =
     (let ql = lower query; tl = lower txt in
      foldl (\<lambda>hits (name, keywords).
               if list_ex (\<lambda>k. sublist k ql) keywords
               then hits + int (length (filter (\<lambda>k. sublist k tl) keywords))
               else hits)
        0 CLAUSE_KEYWORDS)"

text \<open>
  \<open>sorted(docs, key=..., reverse=True)\<close> is a stable sort by descending score:
  documents of equal score keep their order.
\<close>

definition rank_by_bias :: "string \<Rightarrow> document list \<Rightarrow> document list" where
  "rank_by_bias query docs = sort_key (\<lambda>d. - score_clause_bias query (page_content d)) docs"

text \<open>
  The agent keeps \<open>retrieval_cache\<close>, a dictionary from search strings to documents.
  The search string is computed outside the \<open>try\<close>, so its exception leaves the agent.
\<close>

definition retrieval_agent_process ::
  "env \<Rightarrow> (string \<rightharpoonup> document list) \<Rightarrow> query_context
     \<Rightarrow> py_error + (query_context \<times> (string \<rightharpoonup> document list))" where
  "retrieval_agent_process e retrieval_cache ctx =
     bind_exn (search_query_of (structured_query ctx) (original_query ctx)) (\<lambda>search_query.
       case (case retrieval_cache search_query of
               Some docs \<Rightarrow> Inr (docs, retrieval_cache)
             | None \<Rightarrow>
                 bind_exn (similarity_search e search_query 4) (\<lambda>docs.
                   Inr (docs, retrieval_cache(search_query \<mapsto> docs)))) of
         Inr (docs, cache') \<Rightarrow>
           Inr (ctx\<lparr>retrieved_docs := Some (rank_by_bias (original_query ctx) docs)\<rparr>, cache')
       | Inl err \<Rightarrow> Inr (ctx\<lparr>retrieved_docs := Some []\<rparr>, retrieval_cache))"

subsection \<open>Policy rules\<close>

text \<open>
  The patterns of \<open>_extract_policy_rules_fallback\<close>:
  \<^verbatim>\<open>waiting\s+period.*?(\d+)\s*(?:month|year)\<close> and, for the amounts, a number
  \<^verbatim>\<open>(\d+(?:,\d+)*)\<close> after \<^verbatim>\<open>room\s+rent.*?\<close>, \<^verbatim>\<open>icu.*?\<close>, \<^verbatim>\<open>surgery.*?\<close>,
  \<^verbatim>\<open>coverage.*?\<close>, \<^verbatim>\<open>limit.*?\<close>, or before a currency word. The rupee and euro
  signs of the last pattern are outside Latin-1 and cannot occur in a modelled text, so
  these two alternatives are left out.
\<close>

definition number_pattern :: regex where
  "number_pattern = Seq (Plus cls_d) (Star (Seq (Chr CHR '','') (Plus cls_d)))"

definition waiting_pattern :: regex where
  "waiting_pattern = Seqs [Str ''waiting'', Plus cls_s, Str ''period'', Lazy cls_dot,
     Group 1 (Plus cls_d), Star cls_s, Alt (Str ''month'') (Str ''year'')]"

definition amount_patterns :: "(regex \<times> string) list" where
  "amount_patterns =
     [(Seqs [Str ''room'', Plus cls_s, Str ''rent'', Lazy cls_dot, Group 1 number_pattern],
         ''room_rent''),
      (Seqs [Str ''icu'', Lazy cls_dot, Group 1 number_pattern], ''icu''),
      (Seqs [Str ''surgery'', Lazy cls_dot, Group 1 number_pattern], ''surgery''),
      (Seqs [Str ''coverage'', Lazy cls_dot, Group 1 number_pattern], ''general_coverage''),
      (Seqs [Str ''limit'', Lazy cls_dot, Group 1 number_pattern], ''general_coverage''),
      (Seqs [Group 1 number_pattern, Star cls_s,
             Alts [Str ''rs'', Seq (Str ''rupee'') (Opt (Chr CHR ''s'')),
                   Seq (Str ''dollar'') (Opt (Chr CHR ''s'')), Chr CHR ''$'',
                   Seq (Str ''euro'') (Opt (Chr CHR ''s''))]],
         ''general_coverage'')]"

definition extract_policy_rules_fallback :: "document list \<Rightarrow> pyval" where
  "extract_policy_rules_fallback docs =
     (let combined_text = join_strings '' '' (map (\<lambda>doc. lower (page_content doc)) docs);
          waiting0 = [(''major_surgery'', PStr ''not_specified''),
                      (''minor_procedure'', PStr ''not_specified''),
                      (''preventive_care'', PStr ''not_specified'')];
          waiting_periods =
            (case re_search waiting_pattern combined_text of
               Some waiting_match \<Rightarrow>
                 dict_set (dict_set waiting0 ''major_surgery''
                             (PInt (int_of_digits (m_group waiting_match 1))))
                   ''minor_procedure'' (PInt (int_of_digits (m_group waiting_match 1)))
             | None \<Rightarrow> waiting0);
          coverage0 = [(''room_rent'', PStr ''as_per_policy''), (''icu'', PStr ''as_per_policy''),
                       (''surgery'', PStr ''as_per_policy''),
                       (''general_coverage'', PStr ''as_per_policy'')];
          coverage_limits =
            foldl (\<lambda>coverage (pattern, key).
                     case re_search pattern combined_text of
                       None \<Rightarrow> coverage
                     | Some m \<Rightarrow>
                         (let amount_str = filter (\<lambda>c. c \<noteq> CHR '','') (m_group m 1) in
                          if map_of coverage key = None
                             \<or> map_of coverage key = Some (PStr ''as_per_policy'')
                          then dict_set coverage key (PInt (int_of_digits amount_str))
                          else coverage))
              coverage0 amount_patterns
      in PDict [(''waiting_periods'', PDict waiting_periods),
                (''coverage_limits'', PDict coverage_limits),
                (''exclusions'', PList []), (''special_benefits'', PList [])])"

text \<open>
  \<open>_extract_policy_rules_ai\<close> never raises: whatever fails, the regex rules are
  returned.
\<close>

definition extract_policy_rules_ai :: "env \<Rightarrow> document list \<Rightarrow> pyval" where
  "extract_policy_rules_ai e docs =
     (case bind_exn (llm_rules e) (\<lambda>response.
             let rules_text = strip response in
             if rules_text = [] \<or> strip rules_text = []
             then Inl (PyError ''ValueError'' ''Empty response from GPT-5'')
             else (let cleaned_rules = clean_json_response rules_text in
               if cleaned_rules = [] \<or> strip cleaned_rules = []
               then Inl (PyError ''ValueError'' ''No JSON content after cleaning'')
               else json_loads e cleaned_rules)) of
        Inr rules \<Rightarrow> rules
      | Inl err \<Rightarrow> extract_policy_rules_fallback docs)"

subsection \<open>Decision reasoning\<close>

text \<open>
  \<open>_normalize_decision\<close> as the agent calls it, on whatever value the model put under
  \<open>decision\<close>: a falsy value is PENDING, and a truthy value that is not a string has no
  method \<open>lower\<close>.
\<close>

definition normalize_decision_val :: "pyval \<Rightarrow> py_error + string" where
  "normalize_decision_val v =
     (if \<not> py_truthy v then Inr ''PENDING''
      else case v of
             PStr s \<Rightarrow> Inr (normalize_decision s)
           | _ \<Rightarrow> Inl (PyError ''AttributeError''
                      (quoted (type_name v) @ '' object has no attribute '' @ quoted ''lower'')))"

text \<open>
  \<open>_process_amount_field\<close>. The class \<^verbatim>\<open>[,rs\s$]\<close> of the substitution also holds
  the pound and yen signs (and two signs outside Latin-1). \<open>str.isdigit\<close> also holds of
  the superscript digits, which \<open>int\<close> does not read. Every exception is caught and
  gives \<open>None\<close>.
\<close>

definition currency_class :: "char \<Rightarrow> bool" where
  "currency_class c = (c = CHR '','' \<or> c = CHR ''r'' \<or> c = CHR ''s'' \<or> isspace c \<or> c = CHR ''$''
     \<or> of_char c = (163 :: nat) \<or> of_char c = (165 :: nat))"

definition py_isdigit :: "string \<Rightarrow> bool" where
  "py_isdigit s = (s \<noteq> [] \<and> list_all (\<lambda>c. isdigit c \<or> of_char c \<in> {178, 179, 185 :: nat}) s)"

fun first_coverage :: "pyval \<Rightarrow> string list \<Rightarrow> py_error + pyval" where
  "first_coverage coverage [] = Inr PNone"
| "first_coverage coverage (key # keys) =
     bind_exn (py_contains key coverage) (\<lambda>has.
       if has
       then bind_exn (py_getitem coverage key) (\<lambda>v.
              if v \<noteq> PStr ''as_per_policy'' then Inr v else first_coverage coverage keys)
       else first_coverage coverage keys)"

definition amount_from_rules :: "pyval \<Rightarrow> py_error + pyval" where
  "amount_from_rules policy_rules =
     (if py_truthy policy_rules
      then bind_exn (py_contains ''coverage_limits'' policy_rules) (\<lambda>has.
             if has
             then bind_exn (py_getitem policy_rules ''coverage_limits'') (\<lambda>coverage.
                    first_coverage coverage [''general_coverage'', ''surgery'', ''room_rent'', ''icu''])
             else Inr PNone)
      else Inr PNone)"

definition process_amount_field :: "env \<Rightarrow> pyval \<Rightarrow> pyval \<Rightarrow> pyval" where
  "process_amount_field e amount_value policy_rules =
     (case
        (if py_truthy amount_value \<and> amount_value \<noteq> PStr ''null''
            \<and> (case amount_value of PStr s \<Rightarrow> lower s \<noteq> ''pending'' | _ \<Rightarrow> True)
         then (case amount_value of
                 PStr s \<Rightarrow>
                   (let clean_amount = filter (\<lambda>c. \<not> currency_class c) s in
                    if py_isdigit clean_amount
                    then (if list_all isdigit clean_amount
                          then Inr (PInt (int_of_digits clean_amount))
                          else Inl (PyError ''ValueError''
                            (''invalid literal for int() with base 10: '' @ quoted clean_amount)))
                    else amount_from_rules policy_rules)
               | PInt n \<Rightarrow> bind_exn (py_int e amount_value) (\<lambda>n. Inr (PInt n))
               | PBool b \<Rightarrow> bind_exn (py_int e amount_value) (\<lambda>n. Inr (PInt n))
               | PFloat f \<Rightarrow> bind_exn (py_int e amount_value) (\<lambda>n. Inr (PInt n))
               | _ \<Rightarrow> amount_from_rules policy_rules)
         else amount_from_rules policy_rules) of
        Inr v \<Rightarrow> v
      | Inl err \<Rightarrow> PNone)"

text \<open>
  \<open>all(key in decision for key in required_keys)\<close> stops at the first key that is
  missing.
\<close>

fun contains_all :: "string list \<Rightarrow> pyval \<Rightarrow> py_error + bool" where
  "contains_all [] obj = Inr True"
| "contains_all (key # keys) obj =
     bind_exn (py_contains key obj) (\<lambda>has. if has then contains_all keys obj else Inr False)"

definition make_ai_decision :: "env \<Rightarrow> pyval \<Rightarrow> py_error + pyval" where
  "make_ai_decision e policy_rules =
     bind_exn (llm_ai_decision e) (\<lambda>response.
       let decision_text = strip response in
       case re_search_object decision_text of
         None \<Rightarrow> Inl (PyError ''ValueError'' ''No JSON found in decision response'')
       | Some json_match \<Rightarrow>
           bind_exn (json_loads e json_match) (\<lambda>dec.
           bind_exn (contains_all [''decision'', ''justification'', ''amount'', ''confidence_score''] dec)
             (\<lambda>valid.
               if \<not> valid then Inl (PyError ''ValueError'' ''Missing required decision fields'')
               else
                 bind_exn (py_getitem dec ''decision'') (\<lambda>d.
                 bind_exn (normalize_decision_val d) (\<lambda>normalized.
                 bind_exn (py_setitem dec ''decision'' (PStr normalized)) (\<lambda>dec1.
                 bind_exn (py_get dec1 ''confidence_score'' (PInt 50)) (\<lambda>c.
                 bind_exn (py_int e c) (\<lambda>n.
                 bind_exn (py_setitem dec1 ''confidence_score'' (PInt (min 100 (max 0 n)))) (\<lambda>dec2.
                 bind_exn (py_get dec2 ''amount'' PNone) (\<lambda>original_amount.
                 py_setitem dec2 ''amount''
                   (process_amount_field e original_amount policy_rules)))))))))))"

definition pending_decision :: "string \<Rightarrow> int \<Rightarrow> pyval" where
  "pending_decision reason score =
     PDict [(''decision'', PStr ''PENDING''), (''justification'', PStr reason),
            (''amount'', PNone), (''confidence_score'', PInt score)]"

definition apply_basic_rules :: "env \<Rightarrow> pyval \<Rightarrow> document list \<Rightarrow> py_error + pyval" where
  "apply_basic_rules e sq docs =
     bind_exn (py_get sq ''age'' PNone) (\<lambda>age.
     bind_exn (py_get sq ''procedure'' PNone) (\<lambda>procedure.
     bind_exn (py_get sq ''policy_duration_months'' (PInt 1)) (\<lambda>policy_duration.
       if \<not> py_truthy procedure
       then Inr (pending_decision
         ''Procedure type not specified. Please provide more details about the medical procedure.''
         30)
       else
         bind_exn (py_less_int policy_duration 3) (\<lambda>short.
           if short
           then Inr (pending_decision
             (''Policy is only '' @ format_val e policy_duration
                @ '' month(s) old. Please check waiting period requirements.'') 40)
           else Inr (pending_decision
             (''Policy duration ('' @ format_val e policy_duration
                @ '' months) appears sufficient, but specific coverage details needed.'') 60)))))"

definition make_decision_fallback :: "env \<Rightarrow> pyval \<Rightarrow> document list \<Rightarrow> py_error + pyval" where
  "make_decision_fallback e sq docs =
     (if docs = []
      then Inr (pending_decision
        (''Could not retrieve relevant policy documents. ''
           @ ''Please upload policy documents for accurate assessment.'') 20)
      else (let policy_rules = extract_policy_rules_ai e docs in
        case make_ai_decision e policy_rules of
          Inr dec \<Rightarrow> Inr dec
        | Inl err \<Rightarrow> apply_basic_rules e sq docs))"

text \<open>
  The first tier of \<open>DecisionReasoningAgent.process\<close>: the reply is cleaned and
  parsed, and the value under \<open>decision\<close>, when there is one, is normalised. The other
  keys of the parsed object are taken as the model gave them.
\<close>

definition primary_decision :: "env \<Rightarrow> py_error + pyval" where
  "primary_decision e =
     bind_exn (llm_reasoning e) (\<lambda>response_text.
       if response_text = [] \<or> strip response_text = []
       then Inl (PyError ''ValueError'' ''Empty response from GPT-5'')
       else (let cleaned_response = clean_json_response response_text in
         if cleaned_response = [] \<or> strip cleaned_response = []
         then Inl (PyError ''ValueError'' ''No JSON content in response'')
         else
           bind_exn (json_loads e cleaned_response) (\<lambda>dec.
           bind_exn (py_contains ''decision'' dec) (\<lambda>has.
             if has
             then bind_exn (py_getitem dec ''decision'') (\<lambda>d.
                  bind_exn (normalize_decision_val d) (\<lambda>normalized.
                  py_setitem dec ''decision'' (PStr normalized)))
             else Inr dec))))"

definition reasoning_agent_process :: "env \<Rightarrow> query_context \<Rightarrow> py_error + query_context" where
  "reasoning_agent_process e ctx =
     (case retrieved_docs ctx of
        None \<Rightarrow> Inr (ctx\<lparr>ctx_decision :=
          pending_decision ''Could not retrieve relevant policy documents.'' 20\<rparr>)
      | Some docs \<Rightarrow>
          if docs = []
          then Inr (ctx\<lparr>ctx_decision :=
            pending_decision ''Could not retrieve relevant policy documents.'' 20\<rparr>)
          else (case primary_decision e of
                  Inr dec \<Rightarrow> Inr (ctx\<lparr>ctx_decision := dec\<rparr>)
                | Inl err \<Rightarrow>
                    bind_exn (make_decision_fallback e (structured_query ctx) docs) (\<lambda>dec.
                      Inr (ctx\<lparr>ctx_decision := dec\<rparr>))))"

subsection \<open>Explanation\<close>

definition explanation_agent_process :: "env \<Rightarrow> query_context \<Rightarrow> query_context" where
  "explanation_agent_process e ctx =
     (let docs = (case retrieved_docs ctx of None \<Rightarrow> [] | Some ds \<Rightarrow> ds);
          decision_text =
            (case ctx_decision ctx of
               PDict kvs \<Rightarrow>
                 (case map_of kvs ''decision'' of Some v \<Rightarrow> v | None \<Rightarrow> PStr ''unknown'')
             | _ \<Rightarrow> PStr ''unknown'')
      in ctx\<lparr>explanation := Some
           \<lparr>e_clause_mappings =
              map (\<lambda>doc. (take 200 (page_content doc) @ ''...'',
                          (case map_of (metadata doc) ''source'' of
                             Some v \<Rightarrow> v | None \<Rightarrow> PStr ''policy_document'')))
                  (take 3 docs),
            e_audit_trail =
              [''Extracted key entities from query.'',
               ''Retrieved '' @ str_of_int (int (length docs)) @ '' relevant policy documents.'',
               ''Applied rules to make a '' @ format_val e decision_text @ '' decision.'']\<rparr>\<rparr>)"

subsection \<open>The orchestrator\<close>

text \<open>
  \<open>build_response\<close> is the \<open>return\<close> inside the \<open>try\<close> of \<open>process_query\<close>,
  \<open>error_response\<close> the one of its \<open>except Exception\<close>, and \<open>run_stages\<close> the body
  of the \<open>try\<close>: the four stages in order and \<open>build_response\<close>. The retrieval cache
  outlives the query, so \<open>run_stages\<close> returns it whether or not a later stage raised.
\<close>

definition build_response :: "query_context \<Rightarrow> py_error + decision_response" where
  "build_response ctx =
     (let decision_data = (if py_truthy (ctx_decision ctx) then ctx_decision ctx else PDict []);
          mappings = (case explanation ctx of None \<Rightarrow> [] | Some ex \<Rightarrow> e_clause_mappings ex);
          trail = (case explanation ctx of None \<Rightarrow> [] | Some ex \<Rightarrow> e_audit_trail ex)
      in bind_exn (py_get decision_data ''decision'' (PStr ''ERROR'')) (\<lambda>d.
         bind_exn (py_get decision_data ''amount'' PNone) (\<lambda>a.
         bind_exn (py_get decision_data ''justification'' (PStr ''An unknown error occurred.'')) (\<lambda>j.
         bind_exn (py_get decision_data ''confidence_score'' (PInt 0)) (\<lambda>c.
         Inr \<lparr>decision = d, amount = a, justification = j, clause_mappings = mappings,
              confidence_score = c, audit_trail = trail\<rparr>)))))"

definition error_response :: "py_error \<Rightarrow> decision_response" where
  "error_response err =
     \<lparr>decision = PStr ''ERROR'', amount = PNone,
      justification = PStr (''Processing failed: '' @ err_text err), clause_mappings = [],
      confidence_score = PInt 0, audit_trail = [''Error occurred during processing'']\<rparr>"

definition run_stages ::
  "env \<Rightarrow> (string \<rightharpoonup> document list) \<Rightarrow> string
     \<Rightarrow> (py_error + decision_response) \<times> (string \<rightharpoonup> document list)" where
  "run_stages e retrieval_cache query =
     (let ctx0 = \<lparr>original_query = query, structured_query = PNone, retrieved_docs = None,
                  ctx_decision = PNone, ctx_confidence_score = PFloat (Finite 0),
                  explanation = None\<rparr>;
          ctx1 = query_agent_process e ctx0
      in case retrieval_agent_process e retrieval_cache ctx1 of
           Inl err \<Rightarrow> (Inl err, retrieval_cache)
         | Inr (ctx2, cache') \<Rightarrow>
             (bind_exn (reasoning_agent_process e ctx2) (\<lambda>ctx3.
                build_response (explanation_agent_process e ctx3)), cache'))"

definition process_query ::
  "env \<Rightarrow> (string \<rightharpoonup> document list) \<Rightarrow> string
     \<Rightarrow> decision_response \<times> (string \<rightharpoonup> document list)" where
  "process_query e retrieval_cache query =
     (case run_stages e retrieval_cache query of
        (Inr response, cache') \<Rightarrow> (response, cache')
      | (Inl err, cache') \<Rightarrow> (error_response err, cache'))"

text \<open>
  The invariant of a decision record: if it is a dictionary with the key \<open>decision\<close>,
  the value there is one of the three normalised decisions.
\<close>

definition decision_ok :: "pyval \<Rightarrow> bool" where
  "decision_ok d =
     (case d of
        PDict kvs \<Rightarrow>
          (case map_of kvs ''decision'' of
             None \<Rightarrow> True
           | Some v \<Rightarrow> v = PStr ''APPROVED'' \<or> v = PStr ''REJECTED'' \<or> v = PStr ''PENDING'')
      | _ \<Rightarrow> True)"

section \<open>The batch endpoint\<close>

text \<open>
  \<open>hackrx_run\<close> and the function \<open>generate_answer\<close> nested in it. What comes from
  outside is a parameter: \<open>batch_generate b attempt timeout\<close> is what the model call
  of batch \<open>b\<close> does at that attempt under \<open>asyncio.wait_for\<close> (an exception, a
  time-out among them, or a text), \<open>batch_json_loads\<close> is \<open>json.loads\<close>, and
  \<open>fetch_text\<close> is the download of the document and the extraction of its text, which
  raise an \<open>HTTPException\<close> of their own.
\<close>

record batch_env =
  batch_generate :: "nat \<Rightarrow> nat \<Rightarrow> nat \<Rightarrow> py_error + string"
  batch_json_loads :: "string \<Rightarrow> py_error + pyval"
  fetch_text :: "string \<Rightarrow> py_error + string"

record hackrx_request =
  req_documents :: string
  req_questions :: "string list"

definition http_exception :: "int \<Rightarrow> string \<Rightarrow> py_error" where
  "http_exception status detail = PyError ''HTTPException'' (str_of_int status @ '': '' @ detail)"

definition sentinel :: pyval where
  "sentinel = PStr ''Not specified in the provided context.''"

definition batch_max_retries :: nat where
  "batch_max_retries = 3"

definition is_complex_batch :: "string list \<Rightarrow> bool" where
  "is_complex_batch questions_batch =
     list_ex (\<lambda>q. length q > 50
                \<or> list_ex (\<lambda>word. sublist word (lower q))
                     [''derive'', ''explain'', ''list'', ''how does''])
       questions_batch"

definition batch_timeout :: "string list \<Rightarrow> nat" where
  "batch_timeout questions_batch = (if is_complex_batch questions_batch then 30 else 20)"

definition dynamic_k :: "int \<Rightarrow> int" where
  "dynamic_k doc_length = (if doc_length < 100000 then 3 else if doc_length < 500000 then 4 else 5)"

text \<open>
  The per-question loop of \<open>generate_answer\<close>. The helper object \<open>retriever\<close> is an
  instance of a class made by \<open>type(...)\<close> whose attributes are the plain functions
  \<open>simple_retrieve\<close>, \<open>dynamic_k\<close> and \<open>clause_bias\<close>, so a call through the
  instance passes the instance as first argument. The first statement of the loop body
  that can raise is \<open>k_val = retriever.dynamic_k(doc_length)\<close>, a call of the
  one-parameter \<open>dynamic_k\<close> with two arguments: it raises \<open>TypeError\<close> for the first
  question, and nothing after it in the loop body runs. An empty batch skips the loop.
\<close>

definition retriever_dynamic_k :: "int \<Rightarrow> py_error + int" where
  "retriever_dynamic_k doc_length =
     Inl (PyError ''TypeError''
       ''hackrx_run.<locals>.generate_answer.<locals>.dynamic_k() takes 1 positional argument but 2 were given'')"

fun prepare_contexts :: "string list \<Rightarrow> int \<Rightarrow> py_error + (string \<times> string) list" where
  "prepare_contexts [] doc_length = Inr []"
| "prepare_contexts (question # questions) doc_length =
     bind_exn (retriever_dynamic_k doc_length) (\<lambda>k_val. Inr [])"

text \<open>
  \<open>s.removeprefix(p)\<close>, \<open>s.removesuffix(p)\<close>, and group 0 of
  \<open>re.search(r"\[.*\]", s, re.DOTALL)\<close>: from the first opening bracket that has a
  closing bracket after it to the last closing bracket.
\<close>

definition removeprefix :: "string \<Rightarrow> string \<Rightarrow> string" where
  "removeprefix p s = (if prefix p s then drop (length p) s else s)"

definition removesuffix :: "string \<Rightarrow> string \<Rightarrow> string" where
  "removesuffix p s = (if suffix p s then take (length s - length p) s else s)"

definition re_search_array :: "string \<Rightarrow> string option" where
  "re_search_array s =
     (let t = dropWhile (\<lambda>c. c \<noteq> CHR ''['') s in
      if t \<noteq> [] \<and> CHR '']'' \<in> set (tl t)
      then Some (CHR ''['' # rev (dropWhile (\<lambda>c. c \<noteq> CHR '']'') (rev (tl t))))
      else None)"

text \<open>
  The body of one attempt after the model call: the reply is parsed as it is without
  its fences, or else its bracket span is parsed (no span gives the empty list); a value
  that is not a list of one element per question raises \<open>ValueError\<close>.
\<close>

definition parse_answers :: "batch_env \<Rightarrow> string \<Rightarrow> nat \<Rightarrow> py_error + pyval list" where
  "parse_answers e response n =
     (let answers_text = strip response in
      bind_exn
        (case batch_json_loads e
                (strip (removesuffix ''```'' (removeprefix ''```json'' answers_text))) of
           Inr v \<Rightarrow> Inr v
         | Inl err \<Rightarrow>
             (case re_search_array answers_text of
                Some m \<Rightarrow> batch_json_loads e m
              | None \<Rightarrow> Inr (PList [])))
        (\<lambda>answers.
           case answers of
             PList xs \<Rightarrow>
               if length xs \<noteq> n then Inl (PyError ''ValueError'' ''Mismatched answer count'')
               else Inr xs
           | _ \<Rightarrow> Inl (PyError ''ValueError'' ''Mismatched answer count'')))"

text \<open>
  The retry loop \<open>for attempt in range(batch_max_retries)\<close>: it returns the value of
  \<open>answers\<close> after the loop (\<open>None\<close> if no attempt was made) and the seconds slept
  between the attempts. \<open>b\<close> is the index of the batch, \<open>t\<close> its time-out and \<open>n\<close>
  its number of questions.
\<close>

fun run_attempts ::
  "batch_env \<Rightarrow> nat \<Rightarrow> nat \<Rightarrow> nat \<Rightarrow> nat list \<Rightarrow> pyval list option \<times> nat list" where
  "run_attempts e b t n [] = (None, [])"
| "run_attempts e b t n (attempt # attempts) =
     (case bind_exn (batch_generate e b attempt t) (\<lambda>response. parse_answers e response n) of
        Inr answers \<Rightarrow> (Some answers, [])
      | Inl err \<Rightarrow>
          if sublist ''429'' (err_text err) \<and> attempt < batch_max_retries - 1
          then (let wait_time = 5 * 2 ^ attempt;
                    (answers, waits) = run_attempts e b t n attempts
                in (answers, wait_time # waits))
          else (Some (replicate n sentinel), []))"

text \<open>
  \<open>generate_answer\<close> for batch \<open>b\<close>. Its only handler is for
  \<open>asyncio.TimeoutError\<close>; any other exception leaves the function.
\<close>

definition generate_answer :: "batch_env \<Rightarrow> nat \<Rightarrow> string list \<Rightarrow> int \<Rightarrow> py_error + pyval list" where
  "generate_answer e b questions_batch doc_length =
     (case bind_exn (prepare_contexts questions_batch doc_length) (\<lambda>batch_contexts.
             case fst (run_attempts e b (batch_timeout questions_batch) (length questions_batch)
                         [0..<batch_max_retries]) of
               Some answers \<Rightarrow> Inr answers
             | None \<Rightarrow> Inl (PyError ''TypeError'' ''zip argument #2 must support iteration'')) of
        Inr answers \<Rightarrow> Inr answers
      | Inl err \<Rightarrow>
          if err_class err = ''TimeoutError''
          then Inr (replicate (length questions_batch) sentinel)
          else Inl err)"

text \<open>
  \<open>[questions[i:i + batch_size] for i in range(0, len(questions), batch_size)]\<close> with
  \<open>batch_size = 5\<close>; \<open>asyncio.gather\<close> over the batches, which raises when a batch
  raises; and the flattened answers. The batches are run here one after the other.
\<close>

definition batch_size :: nat where
  "batch_size = 5"

definition batches_of :: "'a list \<Rightarrow> 'a list list" where
  "batches_of questions =
     map (\<lambda>j. take batch_size (drop (batch_size * j) questions))
       [0..<(length questions + (batch_size - 1)) div batch_size]"

fun gather :: "(nat \<Rightarrow> 'a \<Rightarrow> py_error + 'b) \<Rightarrow> nat \<Rightarrow> 'a list \<Rightarrow> py_error + 'b list" where
  "gather task b [] = Inr []"
| "gather task b (x # xs) =
     bind_exn (task b x) (\<lambda>r. bind_exn (gather task (Suc b) xs) (\<lambda>rs. Inr (r # rs)))"

definition answer_batches :: "batch_env \<Rightarrow> string list \<Rightarrow> int \<Rightarrow> py_error + pyval list" where
  "answer_batches e questions doc_length =
     bind_exn (gather (\<lambda>b batch. generate_answer e b batch doc_length) 0 (batches_of questions))
       (\<lambda>batched_answers. Inr (concat batched_answers))"

text \<open>
  The count behind the logged metrics:
  \<open>sum(1 for ans in answers if ans != sentinel and "Error" not in ans)\<close>.
\<close>

fun count_successful :: "pyval list \<Rightarrow> py_error + nat" where
  "count_successful [] = Inr 0"
| "count_successful (ans # answers) =
     bind_exn (if ans \<noteq> sentinel
               then bind_exn (py_contains ''Error'' ans) (\<lambda>has. Inr (\<not> has))
               else Inr False) (\<lambda>ok.
     bind_exn (count_successful answers) (\<lambda>k. Inr (if ok then Suc k else k)))"

text \<open>
  The body of \<open>hackrx_run\<close> after its first statement, and \<open>hackrx_run\<close> itself, whose
  first statement raises: the endpoint is deprecated and answers 410 Gone.
\<close>

definition hackrx_body :: "batch_env \<Rightarrow> hackrx_request \<Rightarrow> py_error + pyval list" where
  "hackrx_body e request =
     (if req_documents request = [] \<or> req_questions request = []
      then Inl (http_exception 400 ''Missing or invalid documents URL or questions'')
      else bind_exn (fetch_text e (req_documents request)) (\<lambda>raw_text.
             if strip raw_text = []
             then Inl (http_exception 400 ''No text could be extracted from the document'')
             else bind_exn (answer_batches e (req_questions request) (int (length raw_text)))
                    (\<lambda>answers.
                  bind_exn (count_successful answers) (\<lambda>successful_answers. Inr answers))))"

definition hackrx_run :: "batch_env \<Rightarrow> hackrx_request \<Rightarrow> py_error + pyval list" where
  "hackrx_run e request =
     bind_exn
       (Inl (http_exception 410
          ''Endpoint deprecated. Use /upload-document, /upload-document-url, and /query.'')
        :: py_error + unit)
       (\<lambda>u. hackrx_body e request)"

section \<open>Example environments\<close>

text \<open>
  The model's reply to the entity prompt is the JSON array \<open>[1]\<close>; no other call
  matters.
\<close>

definition env_entities_array :: env where
  "env_entities_array =
     \<lparr>llm_entities = Inr ''[1]'', llm_reasoning = Inl all_models_failed,
      llm_rules = Inl all_models_failed, llm_ai_decision = Inl all_models_failed,
      similarity_search = (\<lambda>search_query k. Inr []),
      json_loads = (\<lambda>s. if s = ''[1]'' then Inr (PList [PInt 1])
                         else Inl (PyError ''JSONDecodeError'' ''Expecting value'')),
      int_of_str = (\<lambda>s. None), repr_of = (\<lambda>v. [])\<rparr>"

text \<open>
  No model answers the entity prompt, the vector store returns one chunk, and the reply
  to the reasoning prompt is a JSON object with the four keys the prompt asks for and
  the confidence score 150; \<open>json_loads\<close> reads that text as \<open>json.loads\<close> does.
\<close>

definition reply_confidence_150 :: string where
  "reply_confidence_150 =
     ''{\"decision\": \"APPROVED\", \"amount\": null, \"justification\": \"Covered.\", \"confidence_score\": 150}''"

definition env_confidence_150 :: env where
  "env_confidence_150 =
     \<lparr>llm_entities = Inl all_models_failed, llm_reasoning = Inr reply_confidence_150,
      llm_rules = Inl all_models_failed, llm_ai_decision = Inl all_models_failed,
      similarity_search = (\<lambda>search_query k.
        Inr [\<lparr>page_content = ''Knee surgery is covered after a waiting period of 24 months.'',
              metadata = [(''source'', PStr ''policy.pdf'')]\<rparr>]),
      json_loads = (\<lambda>s. if s = reply_confidence_150
                         then Inr (PDict [(''decision'', PStr ''APPROVED''), (''amount'', PNone),
                                          (''justification'', PStr ''Covered.''),
                                          (''confidence_score'', PInt 150)])
                         else Inl (PyError ''JSONDecodeError'' ''Expecting value'')),
      int_of_str = (\<lambda>s. None), repr_of = (\<lambda>v. [])\<rparr>"

text \<open>A batch environment whose model call times out at every attempt.\<close>

definition batch_env_timeout :: batch_env where
  "batch_env_timeout =
     \<lparr>batch_generate = (\<lambda>b attempt t. Inl (PyError ''TimeoutError'' [])),
      batch_json_loads = (\<lambda>s. Inl (PyError ''JSONDecodeError'' ''Expecting value'')),
      fetch_text = (\<lambda>url. Inr ''Knee surgery is covered after a waiting period of 24 months.'')\<rparr>"

section \<open>Properties\<close>

subsection \<open>Decision normalisation\<close>

text \<open>
  C5. Decision normalisation is total and maps by keyword, the approval keywords being
  tried first: the text \<open>not eligible\<close>, listed under the rejection keywords, contains
  the approval keyword \<open>eligible\<close> and is mapped to APPROVED.
\<close>

theorem normalize_decision_not_eligible:
  "normalize_decision ''not eligible'' = ''APPROVED''"
  by code_simp

subsection \<open>Windowed excerpts\<close>

lemma length_py_slice_le: "length (py_slice xs lo hi) \<le> length xs"
  by (simp add: py_slice_def)

lemma length_py_slice_window:
  assumes "0 \<le> lo" "0 \<le> hi" "hi \<le> lo + w" "0 \<le> w"
  shows "int (length (py_slice xs lo hi)) \<le> w"
proof -
  have "int (py_index (length xs) hi) \<le> int (py_index (length xs) lo) + w"
    using assms by (auto simp: py_index_def min_def max_def)
  with assms(4) show ?thesis unfolding py_slice_def length_drop length_take by linarith
qed

lemma build_windowed_context_le_chunk:
  "length (build_windowed_context query chunk window) \<le> length chunk"
  by (simp add: build_windowed_context_def Let_def length_py_slice_le split: option.splits)

lemma build_windowed_context_le_window:
  "0 \<le> window \<longrightarrow> int (length (build_windowed_context query chunk window)) \<le> window"
  by (auto simp: build_windowed_context_def Let_def
      intro!: length_py_slice_window split: option.splits)

text \<open>
  C9. For every query, document text and window size the windowed excerpt is at most
  as long as the document text and at most as long as the window. A window size is a
  number of characters, so it is not negative; the one call of \<open>build_windowed_context\<close>
  in the source passes the default, 400.
\<close>

theorem build_windowed_context_length:
  "length (build_windowed_context query chunk window) \<le> length chunk \<and>
   (0 \<le> window \<longrightarrow> int (length (build_windowed_context query chunk window)) \<le> window)"
  using build_windowed_context_le_chunk [of query chunk window]
    build_windowed_context_le_window [of window query chunk]
  by blast

text \<open>The theorem at a query whose term \<open>knee\<close> occurs in the document, with window 10.\<close>

theorem build_windowed_context_length_witness:
  "length (build_windowed_context ''knee surgery'' ''The policy covers Knee replacement'' 10)
     \<le> length ''The policy covers Knee replacement'' \<and> (0::int) \<le> 10 \<and>
   int (length (build_windowed_context ''knee surgery'' ''The policy covers Knee replacement'' 10)) \<le> 10"
  using build_windowed_context_length [of "''knee surgery''" "''The policy covers Knee replacement''" 10]
  by simp

subsection \<open>Stripping\<close>

lemma strip_Nil [simp]: "strip [] = []" by (simp add: strip_def)

lemma length_strip_le: "length (strip s) \<le> length s"
proof -
  have "length (strip s) \<le> length (dropWhile isspace s)"
    unfolding strip_def by (metis length_dropWhile_le length_rev)
  also have "\<dots> \<le> length s" by (rule length_dropWhile_le)
  finally show ?thesis .
qed

lemma all_dropWhile_iff: "(\<forall>x\<in>set (dropWhile P s). P x) \<longleftrightarrow> (\<forall>x\<in>set s. P x)"
  by (induction s) auto

lemma strip_eq_Nil_iff: "strip s = [] \<longleftrightarrow> (\<forall>c\<in>set s. isspace c)"
  by (simp add: strip_def dropWhile_eq_Nil_conv all_dropWhile_iff)

lemma strip_id:
  assumes "s = [] \<or> (\<not> isspace (hd s) \<and> \<not> isspace (last s))"
  shows "strip s = s"
proof (cases "s = []")
  case True then show ?thesis by simp
next
  case False
  with assms have h: "\<not> isspace (hd s)" and l: "\<not> isspace (last s)" by auto
  from False h have 1: "dropWhile isspace s = s" by (cases s) auto
  from False l have 2: "dropWhile isspace (rev s) = rev s"
    by (cases "rev s") (auto simp: last_rev hd_rev dest: arg_cong[where f=hd])
  show ?thesis by (simp add: strip_def 1 2)
qed

lemma strip_stripped: "strip s = [] \<or> (\<not> isspace (hd (strip s)) \<and> \<not> isspace (last (strip s)))"
proof (cases "strip s = []")
  case True then show ?thesis by simp
next
  case False
  let ?d = "dropWhile isspace s"
  let ?e = "dropWhile isspace (rev ?d)"
  from False have e: "?e \<noteq> []" by (simp add: strip_def)
  then have he: "\<not> isspace (hd ?e)" by (rule hd_dropWhile)
  have d: "?d \<noteq> []"
  proof
    assume a: "?d = []"
    have "?e = []" unfolding a by simp
    with e show False by blast
  qed
  then have hd: "\<not> isspace (hd ?d)" by (rule hd_dropWhile)
  have "last (strip s) = hd ?e" using e by (simp add: strip_def last_rev)
  moreover have "hd (strip s) = hd ?d"
  proof -
    obtain ys where ys: "rev ?d = takeWhile isspace (rev ?d) @ ?e" by simp
    have "?d = rev ?e @ rev (takeWhile isspace (rev ?d))"
      by (metis rev_append rev_rev_ident takeWhile_dropWhile_id)
    then have "hd ?d = hd (rev ?e)" using e by (metis hd_append2 rev_is_Nil_conv)
    then show ?thesis by (simp add: strip_def)
  qed
  ultimately show ?thesis using he hd by simp
qed

lemma strip_idem: "strip (strip s) = strip s"
  by (rule strip_id) (rule strip_stripped)

subsection \<open>Cleaning a model response\<close>

lemma re_search_lbrace_split:
  assumes "CHR ''{'' \<notin> set pre"
  shows "re_search_lbrace (pre @ CHR ''{'' # rest) = Some (length pre)"
proof -
  have "takeWhile (\<lambda>c. c \<noteq> CHR ''{'') (pre @ CHR ''{'' # rest) = pre"
    using assms by (subst takeWhile_append2) auto
  then show ?thesis by (simp add: re_search_lbrace_def)
qed

lemma re_search_lbrace_None: "re_search_lbrace s = None \<longleftrightarrow> CHR ''{'' \<notin> set s"
  by (simp add: re_search_lbrace_def)

lemma rev_dropWhile_last:
  assumes "x \<notin> set post"
  shows "rev (dropWhile (\<lambda>c. c \<noteq> x) (rev (mid @ x # post))) = mid @ [x]"
proof -
  have "dropWhile (\<lambda>c. c \<noteq> x) (rev post @ x # rev mid) = x # rev mid"
    using assms by (subst dropWhile_append2) auto
  then show ?thesis by simp
qed

lemma re_search_object_brace:
  "re_search_object (CHR ''{'' # rest) =
     (if CHR ''}'' \<in> set rest
      then Some (CHR ''{'' # rev (dropWhile (\<lambda>c. c \<noteq> CHR ''}'') (rev rest)))
      else None)"
  by (simp add: re_search_object_def)

lemma re_search_object_span:
  assumes "CHR ''}'' \<notin> set post"
  shows "re_search_object (CHR ''{'' # mid @ CHR ''}'' # post) = Some (CHR ''{'' # mid @ [CHR ''}''])"
  using assms by (simp add: re_search_object_brace rev_dropWhile_last del: rev_append rev.simps)

lemma re_search_object_SomeD:
  assumes "re_search_object s = Some g"
  shows "(\<exists>m. g = CHR ''{'' # m @ [CHR ''}'']) \<and> length g \<le> length s"
proof -
  let ?t = "dropWhile (\<lambda>c. c \<noteq> CHR ''{'') s"
  from assms have t: "?t \<noteq> []" and cl: "CHR ''}'' \<in> set (tl ?t)"
    and g: "g = CHR ''{'' # rev (dropWhile (\<lambda>c. c \<noteq> CHR ''}'') (rev (tl ?t)))"
    by (auto simp: re_search_object_def Let_def split: if_splits)
  from cl obtain mid post where sp: "tl ?t = mid @ CHR ''}'' # post" and np: "CHR ''}'' \<notin> set post"
    by (auto dest: split_list_last)
  have g': "g = CHR ''{'' # mid @ [CHR ''}'']"
    unfolding g sp by (simp only: rev_dropWhile_last [OF np])
  have "length g \<le> Suc (length (tl ?t))" unfolding g' sp by simp
  also have "\<dots> = length ?t" using t by simp
  also have "\<dots> \<le> length s" by (rule length_dropWhile_le)
  finally show ?thesis using g' by blast
qed

lemma extract_object_split:
  assumes "CHR ''{'' \<notin> set pre"
  shows "extract_object (pre @ CHR ''{'' # rest) =
     (case re_search_object (CHR ''{'' # rest) of Some g \<Rightarrow> g | None \<Rightarrow> pre @ CHR ''{'' # rest)"
  using assms by (simp add: extract_object_def re_search_lbrace_split)

lemma extract_object_cases:
  "extract_object t = t \<or> (\<exists>m. extract_object t = CHR ''{'' # m @ [CHR ''}''])"
  by (auto simp: extract_object_def Let_def split: option.splits dest: re_search_object_SomeD)

lemma length_extract_object: "length (extract_object t) \<le> length t"
proof -
  have "length g \<le> length t" if "re_search_object (drop n t) = Some g" for n g
  proof -
    from re_search_object_SomeD [OF that] have "length g \<le> length (drop n t)" by blast
    also have "length (drop n t) \<le> length t" by simp
    finally show ?thesis .
  qed
  then show ?thesis
    by (auto simp: extract_object_def Let_def split: option.splits)
qed

lemma extract_object_object:
  "extract_object (CHR ''{'' # m @ [CHR ''}'']) = CHR ''{'' # m @ [CHR ''}'']"
proof -
  have "re_search_object (CHR ''{'' # m @ CHR ''}'' # []) = Some (CHR ''{'' # m @ [CHR ''}''])"
    by (rule re_search_object_span) simp
  then show ?thesis
    using extract_object_split [of "[]" "m @ [CHR ''}'']"] by simp
qed


lemma object_not_blank: "strip (CHR ''{'' # m @ [CHR ''}'']) = CHR ''{'' # m @ [CHR ''}'']"
  by (rule strip_id) (simp add: isspace_def)

lemma prefix_fence_hd: "prefix ''```json'' s \<Longrightarrow> s \<noteq> [] \<and> hd s = CHR 0x60"
  by (auto simp: prefix_def)

lemma suffix_fence_last: "suffix ''```'' s \<Longrightarrow> s \<noteq> [] \<and> last s = CHR 0x60"
  by (auto simp: suffix_def)

lemma object_not_fenced:
  "\<not> prefix ''```json'' (CHR ''{'' # m @ [CHR ''}'']) \<and> \<not> suffix ''```'' (CHR ''{'' # m @ [CHR ''}''])"
  using prefix_fence_hd [of "CHR ''{'' # m @ [CHR ''}'']"] suffix_fence_last [of "CHR ''{'' # m @ [CHR ''}'']"]
  by auto

lemma strip_fences_unfenced:
  assumes "strip t = t" "\<not> prefix ''```json'' t" "\<not> suffix ''```'' t"
  shows "strip_fences t = t"
  using assms by (simp add: strip_fences_def)

lemma clean_unfenced:
  assumes "strip t = t" "\<not> prefix ''```json'' t" "\<not> suffix ''```'' t"
  shows "clean_json_response t = extract_object t"
proof (cases "t = []")
  case True
  then show ?thesis by (simp add: clean_json_response_def extract_object_def re_search_lbrace_def)
next
  case False
  with assms(1) have "strip t \<noteq> []" by simp
  with False show ?thesis
    by (simp add: clean_json_response_def strip_fences_unfenced [OF assms])
qed

lemma length_if_py_slice: "length (if b then py_slice u lo hi else u) \<le> length u"
  by (simp add: length_py_slice_le)

lemma length_strip_fences_fenced:
  assumes "strip t = t" "prefix ''```json'' t \<or> suffix ''```'' t"
  shows "length (strip_fences t) < length t"
proof -
  let ?t2 = "if prefix ''```json'' t then drop 7 t else t"
  let ?t3 = "if suffix ''```'' ?t2 then py_slice ?t2 0 (- 3) else ?t2"
  have sf: "strip_fences t = strip ?t3" by (simp add: strip_fences_def assms(1) Let_def)
  have l3: "length ?t3 \<le> length ?t2" by (rule length_if_py_slice)
  have l2: "length ?t2 \<le> length t" by simp
  have "length ?t3 < length t"
  proof (cases "prefix ''```json'' t")
    case True
    then have "length ?t2 < length t" by (auto simp: prefix_def)
    with l3 show ?thesis by linarith
  next
    case False
    with assms(2) have su: "suffix ''```'' t" by simp
    then have "3 \<le> length t" by (auto simp: suffix_def)
    with False su show ?thesis by (simp add: py_slice_def py_index_def)
  qed
  moreover have "length (strip ?t3) \<le> length ?t3" by (rule length_strip_le)
  ultimately show ?thesis unfolding sf by linarith
qed

lemma blank_not_fenced:
  assumes "strip x = []"
  shows "\<not> prefix ''```json'' x \<and> \<not> suffix ''```'' x"
proof -
  from assms have all: "\<forall>c\<in>set x. isspace c" by (simp add: strip_eq_Nil_iff)
  have nb: "\<not> isspace (CHR 0x60)" by (simp add: isspace_def)
  have "CHR 0x60 \<in> set x" if "prefix ''```json'' x \<or> suffix ''```'' x"
    using that by (auto simp: prefix_def suffix_def)
  with all nb show ?thesis by blast
qed

lemma strip_fences_blank: "strip text0 = [] \<Longrightarrow> strip_fences text0 = []"
  by (simp add: strip_fences_def py_slice_def)

text \<open>
  C6 (as amended). When the fence-stripped text holds an opening brace, and a closing
  brace comes after the first opening brace, \<open>clean_json_response\<close> returns the span
  from the first opening brace to the last closing brace; when no closing brace comes
  after the first opening brace, it returns the whole fence-stripped text.
\<close>

theorem clean_json_response_brace:
  assumes "strip_fences text0 = pre @ CHR ''{'' # rest" and "CHR ''{'' \<notin> set pre"
  shows "(CHR ''}'' \<in> set rest \<longrightarrow>
           (\<exists>mid post. rest = mid @ CHR ''}'' # post \<and> CHR ''}'' \<notin> set post \<and>
              clean_json_response text0 = CHR ''{'' # mid @ [CHR ''}''])) \<and>
         (CHR ''}'' \<notin> set rest \<longrightarrow> clean_json_response text0 = strip_fences text0)"
proof -
  have "strip text0 \<noteq> []"
    using assms(1) strip_fences_blank [of text0] by auto
  then have "clean_json_response text0 = extract_object (pre @ CHR ''{'' # rest)"
    by (auto simp: clean_json_response_def assms(1))
  then have cx: "clean_json_response text0 =
      (case re_search_object (CHR ''{'' # rest) of Some g \<Rightarrow> g | None \<Rightarrow> strip_fences text0)"
    by (simp only: extract_object_split [OF assms(2)] assms(1))
  show ?thesis
  proof (intro conjI impI)
    assume "CHR ''}'' \<in> set rest"
    then obtain mid post where sp: "rest = mid @ CHR ''}'' # post" and np: "CHR ''}'' \<notin> set post"
      by (auto dest: split_list_last)
    have "clean_json_response text0 = CHR ''{'' # mid @ [CHR ''}'']"
      unfolding cx sp by (simp add: re_search_object_span [OF np])
    with sp np show "\<exists>mid post. rest = mid @ CHR ''}'' # post \<and> CHR ''}'' \<notin> set post \<and>
        clean_json_response text0 = CHR ''{'' # mid @ [CHR ''}'']" by blast
  next
    assume "CHR ''}'' \<notin> set rest"
    then show "clean_json_response text0 = strip_fences text0"
      unfolding cx by (simp add: re_search_object_brace)
  qed
qed

text \<open>The theorem at the text \<open>x {a} y\<close>, whose span is \<open>{a}\<close>.\<close>

theorem clean_json_response_brace_witness:
  "strip_fences ''x {a} y'' = ''x '' @ CHR ''{'' # ''a} y'' \<and> CHR ''{'' \<notin> set ''x '' \<and>
   CHR ''}'' \<in> set ''a} y'' \<and>
   (\<exists>mid post. ''a} y'' = mid @ CHR ''}'' # post \<and> CHR ''}'' \<notin> set post \<and>
      clean_json_response ''x {a} y'' = CHR ''{'' # mid @ [CHR ''}''])"
proof -
  have 1: "strip_fences ''x {a} y'' = ''x '' @ CHR ''{'' # ''a} y''" by code_simp
  have 2: "CHR ''{'' \<notin> set ''x ''" by simp
  have 3: "CHR ''}'' \<in> set ''a} y''" by simp
  from clean_json_response_brace [OF 1 2] 1 2 3 show ?thesis by blast
qed

text \<open>
  The text \<open>abc{def\<close> has no closing brace: the result is the whole text, not the text
  from the opening brace on.
\<close>

theorem clean_json_response_unclosed_brace:
  "strip_fences ''abc{def'' = ''abc'' @ CHR ''{'' # ''def'' \<and> CHR ''{'' \<notin> set ''abc'' \<and>
   CHR ''}'' \<notin> set ''def'' \<and> clean_json_response ''abc{def'' = ''abc{def'' \<and>
   clean_json_response ''abc{def'' \<noteq> CHR ''{'' # ''def''"
  by code_simp

text \<open>
  C7 (as amended). Cleaning twice gives the same text as cleaning once exactly when
  the cleaned text does not itself start with the fence \<open>```json\<close> or end with the
  fence \<open>```\<close>: one call removes one level of fences.
\<close>

theorem clean_json_response_idempotent_iff:
  "clean_json_response (clean_json_response x) = clean_json_response x \<longleftrightarrow>
   \<not> (prefix ''```json'' (clean_json_response x) \<or> suffix ''```'' (clean_json_response x))"
proof (cases "x = [] \<or> strip x = []")
  case True
  then have cx: "clean_json_response x = x" by (simp add: clean_json_response_def)
  from True have "strip x = []" by auto
  then show ?thesis unfolding cx using cx blank_not_fenced by simp
next
  case False
  let ?t = "strip_fences x"
  from False have cx: "clean_json_response x = extract_object ?t"
    by (simp add: clean_json_response_def)
  have st: "strip ?t = ?t" by (simp add: strip_fences_def Let_def strip_idem)
  from extract_object_cases [of ?t] show ?thesis
  proof
    assume eq: "extract_object ?t = ?t"
    show ?thesis
    proof (cases "prefix ''```json'' ?t \<or> suffix ''```'' ?t")
      case fenced: True
      then have ne: "?t \<noteq> []" by auto
      with st have "\<not> (?t = [] \<or> strip ?t = [])" by simp
      then have "clean_json_response ?t = extract_object (strip_fences ?t)"
        by (simp add: clean_json_response_def)
      then have "length (clean_json_response ?t) \<le> length (strip_fences ?t)"
        by (simp add: length_extract_object)
      also have "\<dots> < length ?t" using st fenced by (rule length_strip_fences_fenced)
      finally have "clean_json_response ?t \<noteq> ?t" by auto
      with fenced show ?thesis unfolding cx eq by simp
    next
      case unfenced: False
      then have "clean_json_response ?t = extract_object ?t"
        using st by (intro clean_unfenced) auto
      with unfenced show ?thesis unfolding cx eq by simp
    qed
  next
    assume "\<exists>m. extract_object ?t = CHR ''{'' # m @ [CHR ''}'']"
    then obtain m where m: "extract_object ?t = CHR ''{'' # m @ [CHR ''}'']" by blast
    have "clean_json_response (CHR ''{'' # m @ [CHR ''}'']) = extract_object (CHR ''{'' # m @ [CHR ''}''])"
      using object_not_blank object_not_fenced by (intro clean_unfenced) auto
    then show ?thesis unfolding cx m using object_not_fenced [of m]
      by (simp add: extract_object_object)
  qed
qed

text \<open>
  A text without any brace that ends with two fences: the first call removes one fence,
  the second call the other.
\<close>

theorem clean_json_response_double_fence:
  "CHR ''{'' \<notin> set ''a``````'' \<and>
   clean_json_response ''a``````'' = ''a```'' \<and>
   clean_json_response (clean_json_response ''a``````'') = ''a'' \<and>
   clean_json_response (clean_json_response ''a``````'') \<noteq> clean_json_response ''a``````''"
  by code_simp

text \<open>The equivalence at a fenced object, where both sides hold.\<close>

theorem clean_json_response_idempotent_witness:
  "clean_json_response (clean_json_response ''```json {a} ```'') = clean_json_response ''```json {a} ```'' \<and>
   clean_json_response ''```json {a} ```'' = ''{a}''"
proof -
  have 1: "clean_json_response ''```json {a} ```'' = ''{a}''" by code_simp
  have "\<not> (prefix ''```json'' ''{a}'' \<or> suffix ''```'' ''{a}'')" by code_simp
  with clean_json_response_idempotent_iff [of "''```json {a} ```''"] 1 show ?thesis by simp
qed

subsection \<open>The model client\<close>

lemma try_fallbacks_spec:
  "\<exists>j\<le>length ms.
     snd (try_fallbacks api k ms calls0) = calls0 @ map (\<lambda>m. (m, 60)) (take j ms) \<and>
     (\<forall>i. Suc i < j \<longrightarrow> \<not> has_content (api (k + i) (ms ! i) 60)) \<and>
     (case fst (try_fallbacks api k ms calls0) of
        Inr content \<Rightarrow> 0 < j \<and> api (k + (j - 1)) (ms ! (j - 1)) 60 = Inr (Some content) \<and>
                        has_content (api (k + (j - 1)) (ms ! (j - 1)) 60)
      | Inl e \<Rightarrow> e = all_models_failed \<and> j = length ms \<and>
                  (0 < j \<longrightarrow> \<not> has_content (api (k + (j - 1)) (ms ! (j - 1)) 60)))"
proof (induction ms arbitrary: k calls0)
  case Nil
  show ?case by simp
next
  case (Cons m ms)
  show ?case
  proof (cases "has_content (api k m 60)")
    case True
    then obtain content where c: "api k m 60 = Inr (Some content)"
      and ne: "content \<noteq> [] \<and> strip content \<noteq> []"
      by (auto simp: has_content_def split: sum.splits option.splits)
    show ?thesis
      by (rule exI [of _ 1]) (use c ne True in simp)
  next
    case False
    then have step: "try_fallbacks api k (m # ms) calls0 =
        try_fallbacks api (Suc k) ms (calls0 @ [(m, 60)])"
      by (auto simp: has_content_def split: sum.splits option.splits)
    from Cons.IH [of "Suc k" "calls0 @ [(m, 60)]"]
    obtain j where j: "j \<le> length ms"
      and calls: "snd (try_fallbacks api (Suc k) ms (calls0 @ [(m, 60)])) =
          (calls0 @ [(m, 60)]) @ map (\<lambda>m. (m, 60)) (take j ms)"
      and earlier: "\<forall>i. Suc i < j \<longrightarrow> \<not> has_content (api (Suc k + i) (ms ! i) 60)"
      and res: "case fst (try_fallbacks api (Suc k) ms (calls0 @ [(m, 60)])) of
          Inr content \<Rightarrow> 0 < j \<and> api (Suc k + (j - 1)) (ms ! (j - 1)) 60 = Inr (Some content) \<and>
                          has_content (api (Suc k + (j - 1)) (ms ! (j - 1)) 60)
        | Inl e \<Rightarrow> e = all_models_failed \<and> j = length ms \<and>
                    (0 < j \<longrightarrow> \<not> has_content (api (Suc k + (j - 1)) (ms ! (j - 1)) 60))"
      by blast
    have e': "\<forall>i. Suc i < Suc j \<longrightarrow> \<not> has_content (api (k + i) ((m # ms) ! i) 60)"
    proof (intro allI impI)
      fix i assume "Suc i < Suc j"
      show "\<not> has_content (api (k + i) ((m # ms) ! i) 60)"
      proof (cases i)
        case 0 with False show ?thesis by simp
      next
        case (Suc i')
        with \<open>Suc i < Suc j\<close> earlier have "\<not> has_content (api (Suc k + i') (ms ! i') 60)" by simp
        with Suc show ?thesis by simp
      qed
    qed
    have last: "0 < j \<Longrightarrow> api (k + (Suc j - 1)) ((m # ms) ! (Suc j - 1)) 60 =
        api (Suc k + (j - 1)) (ms ! (j - 1)) 60"
      by (cases j) simp_all
    show ?thesis
    proof (rule exI [of _ "Suc j"], intro conjI)
      show "Suc j \<le> length (m # ms)" using j by simp
      show "snd (try_fallbacks api k (m # ms) calls0) =
          calls0 @ map (\<lambda>m. (m, 60)) (take (Suc j) (m # ms))"
        unfolding step calls by simp
      show "\<forall>i. Suc i < Suc j \<longrightarrow> \<not> has_content (api (k + i) ((m # ms) ! i) 60)" by (rule e')
      show "case fst (try_fallbacks api k (m # ms) calls0) of
          Inr content \<Rightarrow> 0 < Suc j \<and>
            api (k + (Suc j - 1)) ((m # ms) ! (Suc j - 1)) 60 = Inr (Some content) \<and>
            has_content (api (k + (Suc j - 1)) ((m # ms) ! (Suc j - 1)) 60)
        | Inl e \<Rightarrow> e = all_models_failed \<and> Suc j = length (m # ms) \<and>
            (0 < Suc j \<longrightarrow> \<not> has_content (api (k + (Suc j - 1)) ((m # ms) ! (Suc j - 1)) 60))"
      proof (cases "fst (try_fallbacks api (Suc k) ms (calls0 @ [(m, 60)]))")
        case (Inr content)
        with res have "0 < j" by simp
        with res Inr last show ?thesis unfolding step by auto
      next
        case (Inl e)
        with res have ej: "e = all_models_failed" "j = length ms" by simp_all
        show ?thesis
        proof (cases "j = 0")
          case True
          with Inl ej False show ?thesis unfolding step by simp
        next
          case nz: False
          with res Inl last ej show ?thesis unfolding step by auto
        qed
      qed
    qed
  qed
qed

text \<open>
  C3. The client calls the primary model once, first, and then the fallback models in
  their configured order, stopping at the first reply with content: the calls made are
  the primary model and the first \<open>n\<close> fallback models, every reply before the last
  one had no content (the call raised, or the content was missing, empty or blank), the
  result is the content of the last reply when that has content, and the client raises
  its error only when all the models were called and none had content.
\<close>

theorem generate_content_async_order:
  "\<exists>n\<le>length (fallback_models self).
     snd (generate_content_async self api) =
       (primary_model self, 30) # map (\<lambda>m. (m, 60)) (take n (fallback_models self)) \<and>
     (\<forall>k<n. \<not> has_content (reply_of self api k)) \<and>
     (case fst (generate_content_async self api) of
        Inr content \<Rightarrow>
          reply_of self api n = Inr (Some content) \<and> has_content (reply_of self api n)
      | Inl e \<Rightarrow>
          e = all_models_failed \<and> n = length (fallback_models self) \<and>
          \<not> has_content (reply_of self api n))"
proof (cases "has_content (api 0 (primary_model self) 30)")
  case True
  then obtain content where c: "api 0 (primary_model self) 30 = Inr (Some content)"
    and ne: "content \<noteq> [] \<and> strip content \<noteq> []"
    by (auto simp: has_content_def split: sum.splits option.splits)
  show ?thesis
    by (rule exI [of _ 0]) (use c ne True in \<open>simp add: generate_content_async_def reply_of_def\<close>)
next
  case False
  let ?fbs = "fallback_models self"
  let ?c0 = "[(primary_model self, 30 :: nat)]"
  from False have step: "generate_content_async self api = try_fallbacks api 1 ?fbs ?c0"
    by (auto simp: generate_content_async_def has_content_def split: sum.splits option.splits)
  from try_fallbacks_spec [of ?fbs api 1 ?c0]
  obtain j where j: "j \<le> length ?fbs"
    and calls: "snd (try_fallbacks api 1 ?fbs ?c0) = ?c0 @ map (\<lambda>m. (m, 60)) (take j ?fbs)"
    and earlier: "\<forall>i. Suc i < j \<longrightarrow> \<not> has_content (api (1 + i) (?fbs ! i) 60)"
    and res: "case fst (try_fallbacks api 1 ?fbs ?c0) of
        Inr content \<Rightarrow> 0 < j \<and> api (1 + (j - 1)) (?fbs ! (j - 1)) 60 = Inr (Some content) \<and>
                        has_content (api (1 + (j - 1)) (?fbs ! (j - 1)) 60)
      | Inl e \<Rightarrow> e = all_models_failed \<and> j = length ?fbs \<and>
                  (0 < j \<longrightarrow> \<not> has_content (api (1 + (j - 1)) (?fbs ! (j - 1)) 60))"
    by blast
  have r0: "reply_of self api 0 = api 0 (primary_model self) 30" by (simp add: reply_of_def)
  have rS: "reply_of self api (Suc i) = api (1 + i) (?fbs ! i) 60" for i
    by (simp add: reply_of_def)
  have rj: "0 < j \<Longrightarrow> reply_of self api j = api (1 + (j - 1)) (?fbs ! (j - 1)) 60"
    by (cases j) (simp_all add: reply_of_def)
  have e': "\<forall>k<j. \<not> has_content (reply_of self api k)"
  proof (intro allI impI)
    fix k assume "k < j"
    show "\<not> has_content (reply_of self api k)"
    proof (cases k)
      case 0 with False r0 show ?thesis by simp
    next
      case (Suc i)
      with \<open>k < j\<close> earlier have "\<not> has_content (api (1 + i) (?fbs ! i) 60)" by simp
      with Suc rS show ?thesis by simp
    qed
  qed
  show ?thesis
  proof (rule exI [of _ j], intro conjI)
    show "j \<le> length ?fbs" by (rule j)
    show "snd (generate_content_async self api) =
        (primary_model self, 30) # map (\<lambda>m. (m, 60)) (take j ?fbs)"
      unfolding step calls by simp
    show "\<forall>k<j. \<not> has_content (reply_of self api k)" by (rule e')
    show "case fst (generate_content_async self api) of
        Inr content \<Rightarrow>
          reply_of self api j = Inr (Some content) \<and> has_content (reply_of self api j)
      | Inl e \<Rightarrow>
          e = all_models_failed \<and> j = length ?fbs \<and> \<not> has_content (reply_of self api j)"
    proof (cases "fst (try_fallbacks api 1 ?fbs ?c0)")
      case (Inr content)
      with res have "0 < j" by simp
      with res Inr rj show ?thesis unfolding step by auto
    next
      case (Inl e)
      show ?thesis
      proof (cases "j = 0")
        case True
        with res Inl False r0 show ?thesis unfolding step by auto
      next
        case nz: False
        with res Inl rj show ?thesis unfolding step by auto
      qed
    qed
  qed
qed

text \<open>
  The primary model times out and the first fallback model answers \<open>Hello\<close>: the
  result is \<open>Hello\<close>, and the second fallback model is not called.
\<close>

theorem generate_content_async_hello:
  "generate_content_async GPT5Client
     (\<lambda>k m t. if m = ''openai/gpt-5-2025-08-07'' then Inr (Some ''Hello'')
               else Inl (PyError ''APITimeoutError'' ''Request timed out.'')) =
     (Inr ''Hello'', [(''openai/gpt-5-mini-2025-08-07'', 30), (''openai/gpt-5-2025-08-07'', 60)]) \<and>
   (\<exists>n\<le>length (fallback_models GPT5Client).
     snd (generate_content_async GPT5Client
       (\<lambda>k m t. if m = ''openai/gpt-5-2025-08-07'' then Inr (Some ''Hello'')
                 else Inl (PyError ''APITimeoutError'' ''Request timed out.''))) =
       (primary_model GPT5Client, 30) # map (\<lambda>m. (m, 60)) (take n (fallback_models GPT5Client)))"
proof -
  let ?api = "\<lambda>(k::nat) m (t::nat). if m = ''openai/gpt-5-2025-08-07'' then Inr (Some ''Hello'')
               else Inl (PyError ''APITimeoutError'' ''Request timed out.'') :: api_reply"
  have 1: "generate_content_async GPT5Client ?api =
     (Inr ''Hello'', [(''openai/gpt-5-mini-2025-08-07'', 30), (''openai/gpt-5-2025-08-07'', 60)])"
    by code_simp
  from generate_content_async_order [of GPT5Client ?api]
  have "\<exists>n\<le>length (fallback_models GPT5Client).
     snd (generate_content_async GPT5Client ?api) =
       (primary_model GPT5Client, 30) # map (\<lambda>m. (m, 60)) (take n (fallback_models GPT5Client))"
    by blast
  with 1 show ?thesis by blast
qed

subsection \<open>Entity extraction without the model\<close>

lemma sublist_m_male: "sublist ''male'' s \<Longrightarrow> sublist ''m'' s"
proof -
  assume a: "sublist ''male'' s"
  have "sublist ''m'' ''male''" by code_simp
  with a show ?thesis by (rule sublist_order.order_trans [rotated])
qed

lemma sublist_m_female: "sublist ''female'' s \<Longrightarrow> sublist ''m'' s"
proof -
  assume a: "sublist ''female'' s"
  have "sublist ''m'' ''female''" by code_simp
  with a show ?thesis by (rule sublist_order.order_trans [rotated])
qed

lemma sublist_m_woman: "sublist ''woman'' s \<Longrightarrow> sublist ''m'' s"
proof -
  assume a: "sublist ''woman'' s"
  have "sublist ''m'' ''woman''" by code_simp
  with a show ?thesis by (rule sublist_order.order_trans [rotated])
qed

lemma extract_gender_m:
  "extract_gender query_lower = (if sublist ''m'' query_lower then PStr ''male'' else PNone)"
  using sublist_m_male sublist_m_female sublist_m_woman
  by (auto simp: extract_gender_def)

lemma fallback_gender:
  "py_get (extract_entities_fallback query) ''gender'' PNone = Inr (extract_gender (lower query))"
  by (simp add: extract_entities_fallback_def Let_def)

text \<open>
  C10. The gender of the regex fallback extractor is \<open>male\<close> when the lower-cased
  query has the letter \<open>m\<close> and null otherwise, never \<open>female\<close>: a query with
  \<open>female\<close> or \<open>woman\<close> satisfies the test of the male branch, which comes first.
\<close>

theorem fallback_gender_never_female:
  "py_get (extract_entities_fallback query) ''gender'' PNone =
     Inr (if sublist ''m'' (lower query) then PStr ''male'' else PNone) \<and>
   py_get (extract_entities_fallback query) ''gender'' PNone \<noteq> Inr (PStr ''female'') \<and>
   (sublist ''female'' (lower query) \<or> sublist ''woman'' (lower query) \<longrightarrow>
      (sublist ''male'' (lower query) \<or> sublist ''m'' (lower query)) \<and>
      py_get (extract_entities_fallback query) ''gender'' PNone = Inr (PStr ''male''))"
  using sublist_m_female [of "lower query"] sublist_m_woman [of "lower query"]
  by (auto simp: fallback_gender extract_gender_m)

text \<open>The query of \<open>src/test_api.py\<close> about a woman is given the gender \<open>male\<close>.\<close>

theorem fallback_gender_woman:
  "sublist ''woman'' (lower ''60-year-old woman, cataract surgery, Delhi, 5-year-old policy'') \<and>
   py_get (extract_entities_fallback ''60-year-old woman, cataract surgery, Delhi, 5-year-old policy'')
     ''gender'' PNone = Inr (PStr ''male'')"
proof -
  have 1: "sublist ''woman'' (lower ''60-year-old woman, cataract surgery, Delhi, 5-year-old policy'')"
    by code_simp
  with fallback_gender_never_female
    [of "''60-year-old woman, cataract surgery, Delhi, 5-year-old policy''"]
  show ?thesis by blast
qed

subsection \<open>The search string\<close>

lemma str_items_strings: "str_items i (map PStr ss) = Inr ss"
  by (induction ss arbitrary: i) (simp_all add: bind_exn_def)

lemma filter_truthy_fields:
  "filter py_truthy (map str_or_none flds @ [PStr ''waiting period'']) =
     map PStr (filter (\<lambda>s. s \<noteq> []) (List.map_filter id flds) @ [''waiting period''])"
proof (induction flds)
  case Nil
  show ?case by (simp add: List.map_filter_simps)
next
  case (Cons f flds)
  then show ?case by (cases f) (simp_all add: str_or_none_def List.map_filter_simps)
qed

lemma set_join_strings_last: "set s \<subseteq> set (join_strings sep (ss @ [s]))"
proof (induction ss)
  case Nil show ?case by simp
next
  case (Cons a ss)
  then show ?case by (cases "ss @ [s]") auto
qed

lemma strip_hint_nonempty: "strip (join_strings '' '' (ss @ [''waiting period''])) \<noteq> []"
proof -
  have "CHR ''w'' \<in> set (join_strings '' '' (ss @ [''waiting period'']))"
    using set_join_strings_last [of "''waiting period''" "'' ''" ss] by auto
  moreover have "\<not> isspace CHR ''w''" by (simp add: isspace_def)
  ultimately show ?thesis by (auto simp: strip_eq_Nil_iff)
qed

text \<open>
  C8 (as amended). For a structured query whose procedure, intent and location are
  strings or null, the search string is the space-join, stripped, of the non-empty
  values among procedure, intent and location, in this order, followed by the fixed
  text \<open>waiting period\<close>; it is never empty, so the original query is never used.
\<close>

theorem search_query_of_fields:
  assumes "py_get sq ''procedure'' PNone = Inr (str_or_none procedure)"
    and "py_get sq ''intent'' PNone = Inr (str_or_none intent)"
    and "py_get sq ''location'' PNone = Inr (str_or_none location)"
  shows "search_query_of sq q =
           Inr (strip (join_strings '' ''
             (filter (\<lambda>s. s \<noteq> []) (List.map_filter id [procedure, intent, location])
              @ [''waiting period''])))
         \<and> search_query_of sq q \<noteq> Inr []"
proof -
  let ?ss = "filter (\<lambda>s. s \<noteq> []) (List.map_filter id [procedure, intent, location])"
  have f: "filter py_truthy
      [str_or_none procedure, str_or_none intent, str_or_none location, PStr ''waiting period''] =
      map PStr (?ss @ [''waiting period''])"
    using filter_truthy_fields [of "[procedure, intent, location]"] by simp
  have j: "str_join '' '' (map PStr (?ss @ [''waiting period''])) =
      Inr (join_strings '' '' (?ss @ [''waiting period'']))"
    unfolding str_join_def str_items_strings by (simp add: bind_exn_def)
  have "search_query_of sq q =
      Inr (strip (join_strings '' '' (?ss @ [''waiting period''])))"
    unfolding search_query_of_def assms
    by (simp only: bind_exn_def sum.case f j strip_hint_nonempty if_True not_False_eq_True)
  with strip_hint_nonempty [of ?ss] show ?thesis by simp
qed

text \<open>The theorem at a structured query with a procedure and a location, and no intent.\<close>

theorem search_query_of_knee_pune_witness:
  "py_get (PDict [(''procedure'', PStr ''knee''), (''location'', PStr ''Pune'')]) ''procedure'' PNone
     = Inr (str_or_none (Some ''knee'')) \<and>
   py_get (PDict [(''procedure'', PStr ''knee''), (''location'', PStr ''Pune'')]) ''intent'' PNone
     = Inr (str_or_none None) \<and>
   py_get (PDict [(''procedure'', PStr ''knee''), (''location'', PStr ''Pune'')]) ''location'' PNone
     = Inr (str_or_none (Some ''Pune'')) \<and>
   search_query_of (PDict [(''procedure'', PStr ''knee''), (''location'', PStr ''Pune'')])
     ''is knee surgery covered'' = Inr ''knee Pune waiting period''"
proof -
  let ?sq = "PDict [(''procedure'', PStr ''knee''), (''location'', PStr ''Pune'')]"
  have 1: "py_get ?sq ''procedure'' PNone = Inr (str_or_none (Some ''knee''))"
    by (simp add: str_or_none_def)
  have 2: "py_get ?sq ''intent'' PNone = Inr (str_or_none None)"
    by (simp add: str_or_none_def)
  have 3: "py_get ?sq ''location'' PNone = Inr (str_or_none (Some ''Pune''))"
    by (simp add: str_or_none_def)
  have 4: "strip (join_strings '' ''
             (filter (\<lambda>s. s \<noteq> []) (List.map_filter id [Some ''knee'', None, Some ''Pune''])
              @ [''waiting period''])) = ''knee Pune waiting period''"
    by code_simp
  from search_query_of_fields [OF 1 2 3, of "''is knee surgery covered''"] 1 2 3 4
  show ?thesis by simp
qed

text \<open>
  With all three fields set, the code's search string differs from the one the
  specification words: the intent comes before the location, and the fixed text is
  \<open>waiting period\<close>.
\<close>

theorem search_query_of_differs_from_spec:
  "search_query_of
     (PDict [(''procedure'', PStr ''knee''), (''location'', PStr ''Pune''),
             (''intent'', PStr ''claim_eligibility'')]) ''is knee surgery covered''
     = Inr ''knee claim_eligibility Pune waiting period'' \<and>
   spec_search_string (Some ''knee'') (Some ''Pune'') (Some ''claim_eligibility'')
     ''is knee surgery covered'' = ''knee Pune claim_eligibility insurance policy coverage'' \<and>
   search_query_of
     (PDict [(''procedure'', PStr ''knee''), (''location'', PStr ''Pune''),
             (''intent'', PStr ''claim_eligibility'')]) ''is knee surgery covered''
     \<noteq> Inr (spec_search_string (Some ''knee'') (Some ''Pune'') (Some ''claim_eligibility'')
           ''is knee surgery covered'')"
  by code_simp

subsection \<open>The single-query pipeline\<close>

lemma normalize_decision_range:
  "normalize_decision s = ''APPROVED'' \<or> normalize_decision s = ''REJECTED'' \<or>
   normalize_decision s = ''PENDING''"
  by (simp add: normalize_decision_def Let_def)

lemma normalize_decision_val_range:
  assumes "normalize_decision_val v = Inr s"
  shows "s = ''APPROVED'' \<or> s = ''REJECTED'' \<or> s = ''PENDING''"
  using assms normalize_decision_range
  by (auto simp: normalize_decision_val_def split: if_splits pyval.splits)

lemma map_of_dict_set:
  "map_of (dict_set kvs k v) k' = (if k' = k then Some v else map_of kvs k')"
  by (induction kvs k v rule: dict_set.induct) auto

lemma bind_exn_InrD:
  "bind_exn m f = Inr y \<Longrightarrow> \<exists>x. m = Inr x \<and> f x = Inr y"
  by (cases m) (simp_all add: bind_exn_def)

lemma py_setitem_InrD:
  "py_setitem obj k v = Inr obj' \<Longrightarrow> \<exists>kvs. obj = PDict kvs \<and> obj' = PDict (dict_set kvs k v)"
  by (cases obj) (simp_all add: py_setitem_def)

lemma decision_ok_set_decision:
  assumes "normalize_decision_val d = Inr s"
  shows "decision_ok (PDict (dict_set kvs ''decision'' (PStr s)))"
  using normalize_decision_val_range [OF assms]
  by (auto simp: decision_ok_def map_of_dict_set)

lemma decision_ok_set_other:
  assumes "decision_ok (PDict kvs)" "k \<noteq> ''decision''"
  shows "decision_ok (PDict (dict_set kvs k v))"
  using assms by (simp add: decision_ok_def map_of_dict_set)

lemma decision_ok_pending: "decision_ok (pending_decision reason score)"
  by (simp add: decision_ok_def pending_decision_def)

lemma py_contains_dict_False:
  "py_contains k (PDict kvs) = Inr False \<Longrightarrow> map_of kvs k = None"
  by simp

lemma primary_decision_ok:
  assumes "primary_decision e = Inr dec"
  shows "decision_ok dec"
proof -
  from assms obtain response_text where "llm_reasoning e = Inr response_text"
    and r: "(if response_text = [] \<or> strip response_text = []
       then Inl (PyError ''ValueError'' ''Empty response from GPT-5'')
       else (let cleaned_response = clean_json_response response_text in
         if cleaned_response = [] \<or> strip cleaned_response = []
         then Inl (PyError ''ValueError'' ''No JSON content in response'')
         else
           bind_exn (json_loads e cleaned_response) (\<lambda>dec.
           bind_exn (py_contains ''decision'' dec) (\<lambda>has.
             if has
             then bind_exn (py_getitem dec ''decision'') (\<lambda>d.
                  bind_exn (normalize_decision_val d) (\<lambda>normalized.
                  py_setitem dec ''decision'' (PStr normalized)))
             else Inr dec)))) = Inr dec"
    unfolding primary_decision_def by (blast dest: bind_exn_InrD)
  then obtain cleaned where
    "bind_exn (json_loads e cleaned) (\<lambda>dec.
           bind_exn (py_contains ''decision'' dec) (\<lambda>has.
             if has
             then bind_exn (py_getitem dec ''decision'') (\<lambda>d.
                  bind_exn (normalize_decision_val d) (\<lambda>normalized.
                  py_setitem dec ''decision'' (PStr normalized)))
             else Inr dec)) = Inr dec"
    by (auto simp: Let_def split: if_splits)
  then obtain dec0 has where has: "py_contains ''decision'' dec0 = Inr has"
    and body: "(if has
             then bind_exn (py_getitem dec0 ''decision'') (\<lambda>d.
                  bind_exn (normalize_decision_val d) (\<lambda>normalized.
                  py_setitem dec0 ''decision'' (PStr normalized)))
             else Inr dec0) = Inr dec"
    by (blast dest: bind_exn_InrD)
  show ?thesis
  proof (cases has)
    case True
    with body obtain d normalized where n: "normalize_decision_val d = Inr normalized"
      and s: "py_setitem dec0 ''decision'' (PStr normalized) = Inr dec"
      by (auto dest!: bind_exn_InrD)
    from py_setitem_InrD [OF s] obtain kvs where "dec = PDict (dict_set kvs ''decision'' (PStr normalized))"
      by blast
    with n show ?thesis by (simp add: decision_ok_set_decision)
  next
    case False
    with body have eq: "dec = dec0" by simp
    show ?thesis
    proof (cases dec0)
      case (PDict kvs)
      with has False have "map_of kvs ''decision'' = None" by simp
      with PDict eq show ?thesis by (simp add: decision_ok_def)
    qed (simp_all add: eq decision_ok_def)
  qed
qed

lemma make_ai_decision_ok:
  assumes "make_ai_decision e policy_rules = Inr dec"
  shows "decision_ok dec"
proof -
  from assms obtain response where
    r: "(let decision_text = strip response in
       case re_search_object decision_text of
         None \<Rightarrow> Inl (PyError ''ValueError'' ''No JSON found in decision response'')
       | Some json_match \<Rightarrow>
           bind_exn (json_loads e json_match) (\<lambda>dec.
           bind_exn (contains_all [''decision'', ''justification'', ''amount'', ''confidence_score''] dec)
             (\<lambda>valid.
               if \<not> valid then Inl (PyError ''ValueError'' ''Missing required decision fields'')
               else
                 bind_exn (py_getitem dec ''decision'') (\<lambda>d.
                 bind_exn (normalize_decision_val d) (\<lambda>normalized.
                 bind_exn (py_setitem dec ''decision'' (PStr normalized)) (\<lambda>dec1.
                 bind_exn (py_get dec1 ''confidence_score'' (PInt 50)) (\<lambda>c.
                 bind_exn (py_int e c) (\<lambda>n.
                 bind_exn (py_setitem dec1 ''confidence_score'' (PInt (min 100 (max 0 n)))) (\<lambda>dec2.
                 bind_exn (py_get dec2 ''amount'' PNone) (\<lambda>original_amount.
                 py_setitem dec2 ''amount''
                   (process_amount_field e original_amount policy_rules))))))))))) = Inr dec"
    unfolding make_ai_decision_def by (blast dest: bind_exn_InrD)
  then obtain dec0 valid where
    body: "(if \<not> valid then Inl (PyError ''ValueError'' ''Missing required decision fields'')
               else
                 bind_exn (py_getitem dec0 ''decision'') (\<lambda>d.
                 bind_exn (normalize_decision_val d) (\<lambda>normalized.
                 bind_exn (py_setitem dec0 ''decision'' (PStr normalized)) (\<lambda>dec1.
                 bind_exn (py_get dec1 ''confidence_score'' (PInt 50)) (\<lambda>c.
                 bind_exn (py_int e c) (\<lambda>n.
                 bind_exn (py_setitem dec1 ''confidence_score'' (PInt (min 100 (max 0 n)))) (\<lambda>dec2.
                 bind_exn (py_get dec2 ''amount'' PNone) (\<lambda>original_amount.
                 py_setitem dec2 ''amount''
                   (process_amount_field e original_amount policy_rules))))))))) = Inr dec"
    by (auto simp: Let_def split: option.splits dest!: bind_exn_InrD)
  then obtain d normalized dec1 n dec2 a where
    nd: "normalize_decision_val d = Inr normalized"
    and s1: "py_setitem dec0 ''decision'' (PStr normalized) = Inr dec1"
    and s2: "py_setitem dec1 ''confidence_score'' (PInt (min 100 (max 0 n))) = Inr dec2"
    and s3: "py_setitem dec2 ''amount'' a = Inr dec"
    by (auto split: if_splits dest!: bind_exn_InrD)
  from py_setitem_InrD [OF s1] obtain kvs where d1: "dec1 = PDict (dict_set kvs ''decision'' (PStr normalized))"
    by blast
  have ok1: "decision_ok dec1" unfolding d1 using nd by (rule decision_ok_set_decision)
  from py_setitem_InrD [OF s2] obtain kvs1 where k1: "dec1 = PDict kvs1"
    and d2: "dec2 = PDict (dict_set kvs1 ''confidence_score'' (PInt (min 100 (max 0 n))))" by blast
  have ok2: "decision_ok dec2" unfolding d2 using ok1 k1 by (intro decision_ok_set_other) auto
  from py_setitem_InrD [OF s3] obtain kvs2 where k2: "dec2 = PDict kvs2"
    and d3: "dec = PDict (dict_set kvs2 ''amount'' a)" by blast
  show ?thesis unfolding d3 using ok2 k2 by (intro decision_ok_set_other) auto
qed

lemma apply_basic_rules_ok:
  assumes "apply_basic_rules e sq docs = Inr dec"
  shows "decision_ok dec"
  using assms unfolding apply_basic_rules_def
  by (auto dest!: bind_exn_InrD split: if_splits simp: decision_ok_pending)

lemma make_decision_fallback_ok:
  assumes "make_decision_fallback e sq docs = Inr dec"
  shows "decision_ok dec"
  using assms unfolding make_decision_fallback_def
  by (auto simp: Let_def decision_ok_pending make_ai_decision_ok apply_basic_rules_ok
      split: if_splits sum.splits)

lemma reasoning_agent_process_ok:
  assumes "reasoning_agent_process e ctx = Inr ctx'"
  shows "decision_ok (ctx_decision ctx')"
  using assms unfolding reasoning_agent_process_def
  by (auto simp: decision_ok_pending primary_decision_ok make_decision_fallback_ok
      split: option.splits if_splits sum.splits dest!: bind_exn_InrD)

lemma explanation_agent_decision:
  "ctx_decision (explanation_agent_process e ctx) = ctx_decision ctx"
  by (simp add: explanation_agent_process_def Let_def)

lemma py_get_InrD:
  "py_get obj k dflt = Inr v \<Longrightarrow>
     \<exists>kvs. obj = PDict kvs \<and> v = (case map_of kvs k of Some w \<Rightarrow> w | None \<Rightarrow> dflt)"
  by (cases obj) simp_all

lemma build_response_decision:
  assumes "build_response ctx = Inr response" "decision_ok (ctx_decision ctx)"
  shows "decision response = PStr ''APPROVED'' \<or> decision response = PStr ''REJECTED'' \<or>
         decision response = PStr ''PENDING'' \<or> decision response = PStr ''ERROR''"
proof -
  let ?dd = "if py_truthy (ctx_decision ctx) then ctx_decision ctx else PDict []"
  from assms(1) obtain d where g: "py_get ?dd ''decision'' (PStr ''ERROR'') = Inr d"
    and dr: "decision response = d"
    unfolding build_response_def Let_def by (auto dest!: bind_exn_InrD)
  from py_get_InrD [OF g] obtain kvs where kv: "?dd = PDict kvs"
    and d: "d = (case map_of kvs ''decision'' of Some w \<Rightarrow> w | None \<Rightarrow> PStr ''ERROR'')" by blast
  have "decision_ok (PDict kvs)"
    using kv assms(2) by (auto simp: decision_ok_def split: if_splits)
  then show ?thesis unfolding dr d by (auto simp: decision_ok_def split: option.splits)
qed

lemma run_stages_decision:
  assumes "fst (run_stages e cache query) = Inr response"
  shows "decision response = PStr ''APPROVED'' \<or> decision response = PStr ''REJECTED'' \<or>
         decision response = PStr ''PENDING'' \<or> decision response = PStr ''ERROR''"
proof -
  from assms obtain ctx3 where r: "build_response (explanation_agent_process e ctx3) = Inr response"
    and ok: "decision_ok (ctx_decision ctx3)"
    unfolding run_stages_def Let_def
    by (auto split: sum.splits prod.splits dest!: bind_exn_InrD intro: reasoning_agent_process_ok)
  from ok have "decision_ok (ctx_decision (explanation_agent_process e ctx3))"
    by (simp add: explanation_agent_decision)
  with r show ?thesis by (rule build_response_decision)
qed

lemma process_query_cases:
  "(\<exists>response. fst (run_stages e cache query) = Inr response \<and>
        fst (process_query e cache query) = response) \<or>
   (\<exists>err. fst (run_stages e cache query) = Inl err \<and>
        fst (process_query e cache query) = error_response err)"
  by (cases "run_stages e cache query"; cases "fst (run_stages e cache query)")
     (auto simp: process_query_def)

text \<open>
  C1. For every query, every behaviour of the model, the vector store and \<open>json.loads\<close>,
  and every state of the retrieval cache, \<open>process_query\<close> returns a response (the
  function is total) whose decision is one of the four decision strings, so never null;
  and when a stage of the chain raises, the response has the decision ERROR, the
  confidence 0 and a justification that holds the text of the exception.
\<close>

theorem process_query_decision_never_null:
  "(decision (fst (process_query e cache query)) = PStr ''APPROVED'' \<or>
    decision (fst (process_query e cache query)) = PStr ''REJECTED'' \<or>
    decision (fst (process_query e cache query)) = PStr ''PENDING'' \<or>
    decision (fst (process_query e cache query)) = PStr ''ERROR'') \<and>
   decision (fst (process_query e cache query)) \<noteq> PNone \<and>
   (\<forall>err. fst (run_stages e cache query) = Inl err \<longrightarrow>
      decision (fst (process_query e cache query)) = PStr ''ERROR'' \<and>
      confidence_score (fst (process_query e cache query)) = PInt 0 \<and>
      justification (fst (process_query e cache query)) =
        PStr (''Processing failed: '' @ err_text err))"
proof -
  have four: "decision (fst (process_query e cache query)) = PStr ''APPROVED'' \<or>
    decision (fst (process_query e cache query)) = PStr ''REJECTED'' \<or>
    decision (fst (process_query e cache query)) = PStr ''PENDING'' \<or>
    decision (fst (process_query e cache query)) = PStr ''ERROR''"
    using process_query_cases [of e cache query] run_stages_decision [of e cache query]
    by (auto simp: error_response_def)
  then have "decision (fst (process_query e cache query)) \<noteq> PNone" by auto
  moreover have "\<forall>err. fst (run_stages e cache query) = Inl err \<longrightarrow>
      decision (fst (process_query e cache query)) = PStr ''ERROR'' \<and>
      confidence_score (fst (process_query e cache query)) = PInt 0 \<and>
      justification (fst (process_query e cache query)) =
        PStr (''Processing failed: '' @ err_text err)"
    using process_query_cases [of e cache query] by (auto simp: error_response_def)
  ultimately show ?thesis using four by blast
qed

text \<open>
  The model answers the entity prompt with a JSON array: the structured query is a
  list, the retrieval stage raises \<open>AttributeError\<close> on its \<open>get\<close>, and the response
  is the ERROR response with that text.
\<close>

theorem process_query_entities_array:
  "fst (run_stages env_entities_array Map.empty ''is knee surgery covered'') =
     Inl (PyError ''AttributeError''
            (quoted ''list'' @ '' object has no attribute '' @ quoted ''get'')) \<and>
   decision (fst (process_query env_entities_array Map.empty ''is knee surgery covered''))
     = PStr ''ERROR'' \<and>
   confidence_score (fst (process_query env_entities_array Map.empty ''is knee surgery covered''))
     = PInt 0 \<and>
   justification (fst (process_query env_entities_array Map.empty ''is knee surgery covered''))
     = PStr (''Processing failed: '' @ quoted ''list'' @ '' object has no attribute '' @ quoted ''get'')"
proof -
  have 1: "fst (run_stages env_entities_array Map.empty ''is knee surgery covered'') =
     Inl (PyError ''AttributeError''
            (quoted ''list'' @ '' object has no attribute '' @ quoted ''get''))"
    by code_simp
  from process_query_decision_never_null
    [of env_entities_array Map.empty "''is knee surgery covered''"] 1
  show ?thesis by simp
qed

text \<open>
  C4. The decision is one of the four strings (shown under C1), but the confidence score
  of the first reasoning tier is the model's: with one retrieved chunk and the reply
  \<open>reply_confidence_150\<close> the response carries the confidence score 150. Only the
  second tier, \<open>make_ai_decision\<close>, clamps the score to 0..100.
\<close>

theorem process_query_confidence_150:
  "decision (fst (process_query env_confidence_150 Map.empty
      ''46-year-old male, knee surgery in Pune, 3-month-old insurance policy''))
     = PStr ''APPROVED'' \<and>
   confidence_score (fst (process_query env_confidence_150 Map.empty
      ''46-year-old male, knee surgery in Pune, 3-month-old insurance policy''))
     = PInt 150"
  by code_simp

subsection \<open>The batch endpoint\<close>

lemma hackrx_run_410:
  "hackrx_run e request = Inl (http_exception 410
     ''Endpoint deprecated. Use /upload-document, /upload-document-url, and /query.'')"
  by (simp add: hackrx_run_def bind_exn_def)

text \<open>
  C2 (as amended). \<open>hackrx_run\<close> is deprecated: for every request, whatever its list
  of questions, and every behaviour of the model client it raises the 410 exception, and
  so it returns no list of answers.
\<close>

theorem hackrx_run_deprecated:
  "hackrx_run e request = Inl (http_exception 410
     ''Endpoint deprecated. Use /upload-document, /upload-document-url, and /query.'') \<and>
   hackrx_run e request \<noteq> Inr answers"
  by (simp add: hackrx_run_def bind_exn_def)

text \<open>
  One question and a model call that times out: the specification promises the sentinel once,
  the endpoint raises the 410 exception.
\<close>

theorem hackrx_run_one_question:
  "hackrx_run batch_env_timeout
     \<lparr>req_documents = ''https://example.com/policy.pdf'',
      req_questions = [''What is the waiting period?'']\<rparr> =
   Inl (http_exception 410
     ''Endpoint deprecated. Use /upload-document, /upload-document-url, and /query.'') \<and>
   hackrx_run batch_env_timeout
     \<lparr>req_documents = ''https://example.com/policy.pdf'',
      req_questions = [''What is the waiting period?'']\<rparr> \<noteq>
   Inr (replicate (length [''What is the waiting period?'']) sentinel)"
  by (simp add: hackrx_run_410)

text \<open>
  Behind the 410 exception, \<open>generate_answer\<close> raises \<open>TypeError\<close> for every batch
  that is not empty, at its call \<open>retriever.dynamic_k(doc_length)\<close>.
\<close>

lemma generate_answer_nonempty_raises:
  "generate_answer e b (question # questions) doc_length =
     Inl (PyError ''TypeError''
       ''hackrx_run.<locals>.generate_answer.<locals>.dynamic_k() takes 1 positional argument but 2 were given'')"
  by (simp add: generate_answer_def retriever_dynamic_k_def bind_exn_def)

end
